theory Spec2Isabelle
  imports Main "HOL-Library.Sublist" "HOL-Library.Multiset"
begin

section \<open>Python values shared by both scripts\<close>

text \<open>
  A lead and a campaign are JSON objects read with \<^verbatim>\<open>dict.get\<close>. They are modelled as
  association lists from keys to string values; \<^verbatim>\<open>d.get(k)\<close> is \<open>map_of d k\<close>, which is
  \<open>None\<close> for an absent key. Values other than strings are outside the model.
\<close>

type_synonym lead = "(string \<times> string) list"

type_synonym campaign = "(string \<times> string) list"

text \<open>
  Python's \<^verbatim>\<open>a or b\<close> on results of \<^verbatim>\<open>dict.get\<close>: the left operand when it is truthy
  (present and not the empty string), the right operand otherwise.
\<close>

definition py_or :: "string option \<Rightarrow> string option \<Rightarrow> string option" where
  "py_or a b = (case a of None \<Rightarrow> b | Some s \<Rightarrow> if s = [] then b else Some s)"

text \<open>
  \<^verbatim>\<open>k in s\<close> on two strings: \<open>k\<close> occurs in \<open>s\<close> as a contiguous run of characters,
  compared character by character (so case matters).
\<close>

fun str_in :: "string \<Rightarrow> string \<Rightarrow> bool" where
  "str_in k [] = (k = [])"
| "str_in k (c # cs) = (prefix k (c # cs) \<or> str_in k cs)"

text \<open>
  \<^verbatim>\<open>str.lower\<close> and \<^verbatim>\<open>str.strip\<close> are parameters of the model: a string is a list of
  bytes (its UTF-8 encoding), the two methods work on Unicode code points, and every
  statement below holds for whatever the two functions are. (\<^verbatim>\<open>in\<close> on strings agrees
  on code points and on UTF-8 bytes.)
\<close>

record str_methods =
  lower :: "string \<Rightarrow> string"
  strip :: "string \<Rightarrow> string"

text \<open>
  The two methods on ASCII strings, for the example runs: the letters A to Z (codes 65 to
  90) are lowered by setting the bit of value 32, and the characters stripped are the
  ASCII ones for which \<^verbatim>\<open>str.isspace\<close> holds.
\<close>

fun lower_char :: "char \<Rightarrow> char" where
  "lower_char (Char b0 b1 b2 b3 b4 b5 b6 b7) =
     (let n = (of_char (Char b0 b1 b2 b3 b4 b5 b6 b7) :: nat)
      in if 65 \<le> n \<and> n \<le> 90 then Char b0 b1 b2 b3 b4 True b6 b7
         else Char b0 b1 b2 b3 b4 b5 b6 b7)"

definition is_space :: "char \<Rightarrow> bool" where
  "is_space c = (let n = (of_char c :: nat) in (9 \<le> n \<and> n \<le> 13) \<or> (28 \<le> n \<and> n \<le> 32))"

definition ascii :: str_methods where
  "ascii =
     \<lparr>lower = map lower_char,
      strip = (\<lambda>s. rev (dropWhile is_space (rev (dropWhile is_space s))))\<rparr>"

section \<open>The segment manifest\<close>

text \<open>
  A segment as the classifier defines it, and the same segment once the assigner has
  stored its \<^verbatim>\<open>lead_count\<close>. The manifest file holds the latter.
\<close>

record segment_def =
  segment_id :: string
  segment_name :: string
  job_titles :: "string list"
  messaging_angle :: string

record segment = segment_def +
  lead_count :: nat

text \<open>
  A JSON file as the code reads it: absent, not parsable, or parsed. The partition of
  segment \<open>sid\<close> is the file \<^verbatim>\<open>segment_<sid>_leads.json\<close> of the output directory of
  the assigner, which is the leads directory of the delivery run; the directory itself
  is left out of the name.
\<close>

datatype 'a json_file = File_not_found | Invalid_json | Parsed 'a

definition segment_file :: "string \<Rightarrow> string" where
  "segment_file sid = ''segment_'' @ sid @ ''_leads.json''"

section \<open>Title Classifier: the keyword fallback (segment\_by\_job\_title.py)\<close>

text \<open>The six lists that the loop of \<^verbatim>\<open>fallback_segmentation\<close> fills.\<close>

record buckets =
  exec_titles :: "string list"
  operations_titles :: "string list"
  marketing_titles :: "string list"
  sales_titles :: "string list"
  technical_titles :: "string list"
  general_titles :: "string list"

text \<open>\<^verbatim>\<open>any(keyword in title_lower for keyword in keywords)\<close>.\<close>

definition any_keyword :: "string list \<Rightarrow> string \<Rightarrow> bool" where
  "any_keyword keywords title_lower = list_ex (\<lambda>keyword. str_in keyword title_lower) keywords"

definition bucket_title :: "str_methods \<Rightarrow> buckets \<Rightarrow> string \<Rightarrow> buckets" where
  "bucket_title py b title =
     (let title_lower = lower py title
      in if any_keyword [''ceo'', ''founder'', ''owner'', ''president'', ''managing director'',
                         ''chief executive''] title_lower
         then b\<lparr>exec_titles := exec_titles b @ [title]\<rparr>
         else if any_keyword [''coo'', ''operations'', ''chief operating''] title_lower
         then b\<lparr>operations_titles := operations_titles b @ [title]\<rparr>
         else if any_keyword [''cmo'', ''marketing'', ''brand'', ''chief marketing''] title_lower
         then b\<lparr>marketing_titles := marketing_titles b @ [title]\<rparr>
         else if any_keyword [''sales'', ''business development'', ''revenue''] title_lower
         then b\<lparr>sales_titles := sales_titles b @ [title]\<rparr>
         else if any_keyword [''cto'', ''technology'', ''engineering'', ''technical'',
                              ''chief technology''] title_lower
         then b\<lparr>technical_titles := technical_titles b @ [title]\<rparr>
         else b\<lparr>general_titles := general_titles b @ [title]\<rparr>)"

definition empty_buckets :: buckets where
  "empty_buckets =
     \<lparr>exec_titles = [], operations_titles = [], marketing_titles = [], sales_titles = [],
      technical_titles = [], general_titles = []\<rparr>"

text \<open>
  \<^verbatim>\<open>fallback_segmentation\<close>. A segment is appended for every list that is not empty.
  \<^verbatim>\<open>segments[0]\<close> is read only when \<open>exec_titles\<close> is not empty, and then the first
  segment is the exec one.
\<close>

definition fallback_segmentation :: "str_methods \<Rightarrow> string list \<Rightarrow> segment_def list" where
  "fallback_segmentation py titles =
     (let b = foldl (bucket_title py) empty_buckets titles;
          segs =
            (if exec_titles b \<noteq> []
             then [\<lparr>segment_id = ''exec'', segment_name = ''Executive Leadership'',
                    job_titles = exec_titles b,
                    messaging_angle = ''Revenue growth and strategic outcomes''\<rparr>] else []) @
            (if operations_titles b \<noteq> []
             then [\<lparr>segment_id = ''operations'', segment_name = ''Operations Leadership'',
                    job_titles = operations_titles b,
                    messaging_angle = ''Operational efficiency with revenue impact''\<rparr>] else []) @
            (if marketing_titles b \<noteq> []
             then [\<lparr>segment_id = ''marketing'', segment_name = ''Marketing Leadership'',
                    job_titles = marketing_titles b,
                    messaging_angle = ''Lead generation ROI and brand growth''\<rparr>] else []) @
            (if sales_titles b \<noteq> []
             then [\<lparr>segment_id = ''sales'', segment_name = ''Sales Leadership'',
                    job_titles = sales_titles b,
                    messaging_angle = ''Pipeline acceleration and quota attainment''\<rparr>] else []) @
            (if technical_titles b \<noteq> []
             then [\<lparr>segment_id = ''technical'', segment_name = ''Technical Leadership'',
                    job_titles = technical_titles b,
                    messaging_angle = ''Innovation and technical excellence''\<rparr>] else [])
      in if general_titles b \<noteq> []
         then if length (general_titles b) < 10 \<and> exec_titles b \<noteq> []
              then (case segs of
                      [] \<Rightarrow> []
                    | seg # rest \<Rightarrow> seg\<lparr>job_titles := job_titles seg @ general_titles b\<rparr> # rest)
              else segs @ [\<lparr>segment_id = ''general'', segment_name = ''General Management'',
                             job_titles = general_titles b,
                             messaging_angle = ''Business growth and operational excellence''\<rparr>]
         else segs)"

section \<open>Segment Assigner (segment\_by\_job\_title.py)\<close>

text \<open>\<^verbatim>\<open>lead.get('job_title') or lead.get('title') or ''\<close>.\<close>

definition lead_title :: "lead \<Rightarrow> string" where
  "lead_title lead =
     (case py_or (py_or (map_of lead ''job_title'') (map_of lead ''title'')) (Some []) of
        None \<Rightarrow> []
      | Some t \<Rightarrow> t)"

text \<open>The loop that collects the unique titles, in order of first appearance.\<close>

definition add_unique_title :: "string list \<Rightarrow> lead \<Rightarrow> string list" where
  "add_unique_title titles lead =
     (let job_title = lead_title lead
      in if job_title \<noteq> [] \<and> job_title \<notin> set titles then titles @ [job_title] else titles)"

text \<open>
  The dict \<open>title_to_segment\<close>: the key is the lowered title, and a later segment
  overwrites the entry of an earlier one.
\<close>

definition build_title_to_segment ::
    "str_methods \<Rightarrow> segment_def list \<Rightarrow> (string \<rightharpoonup> string)" where
  "build_title_to_segment py segs =
     foldl (\<lambda>m seg. foldl (\<lambda>m title. m(lower py title \<mapsto> segment_id seg)) m (job_titles seg))
       Map.empty segs"

text \<open>
  The loop that splits the leads. \<open>segment_leads\<close> is a \<^verbatim>\<open>defaultdict(list)\<close>: a total
  function whose value is the empty list at every key not written yet. A lead whose
  looked-up segment id is absent or empty is unmatched.
\<close>

type_synonym segment_leads = "string \<Rightarrow> lead list"

definition assign_lead ::
    "str_methods \<Rightarrow> (string \<rightharpoonup> string) \<Rightarrow> segment_leads \<times> lead list \<Rightarrow> lead \<Rightarrow>
       segment_leads \<times> lead list" where
  "assign_lead py title_to_segment state lead =
     (case state of (segment_leads, unmatched_leads) \<Rightarrow>
        let job_title = strip py (lead_title lead)
        in case title_to_segment (lower py job_title) of
             None \<Rightarrow> (segment_leads, unmatched_leads @ [lead])
           | Some sid \<Rightarrow>
               if sid = [] then (segment_leads, unmatched_leads @ [lead])
               else (segment_leads(sid := segment_leads sid @ [lead]), unmatched_leads))"

text \<open>
  The inner loop with its \<^verbatim>\<open>else\<close>: the first exec entry of \<open>filtered_segments\<close> gets
  the lead count added; \<open>None\<close> when the loop ends without \<^verbatim>\<open>break\<close>.
\<close>

fun add_to_exec :: "nat \<Rightarrow> segment list \<Rightarrow> segment list option" where
  "add_to_exec n [] = None"
| "add_to_exec n (existing_segment # rest) =
     (if segment_id existing_segment = ''exec''
      then Some (existing_segment\<lparr>lead_count := lead_count existing_segment + n\<rparr> # rest)
      else map_option ((#) existing_segment) (add_to_exec n rest))"

text \<open>
  The body of the loop over the segment definitions. The state is \<open>filtered_segments\<close>,
  \<open>segment_leads\<close> and the files of the output directory. \<open>leads_in_segment\<close> is the
  list object stored in \<open>segment_leads\<close>, so for the exec segment itself
  \<^verbatim>\<open>segment_leads['exec'].extend(leads_in_segment)\<close> appends the list to itself.
\<close>

type_synonym assign_state = "segment list \<times> segment_leads \<times> (string \<rightharpoonup> lead list)"

definition filter_segment :: "int \<Rightarrow> assign_state \<Rightarrow> segment_def \<Rightarrow> assign_state" where
  "filter_segment min_segment_size state seg =
     (case state of (filtered_segments, segment_leads, files) \<Rightarrow>
        let sid = segment_id seg;
            leads_in_segment = segment_leads sid;
            n = length leads_in_segment
        in if int n \<ge> min_segment_size
           then (filtered_segments @
                   [\<lparr>segment_id = sid, segment_name = segment_name seg, job_titles = job_titles seg,
                     messaging_angle = messaging_angle seg, lead_count = n\<rparr>],
                 segment_leads,
                 files(segment_file sid \<mapsto> leads_in_segment))
           else if n > 0
           then (case add_to_exec n filtered_segments of
                   Some merged \<Rightarrow>
                     (merged,
                      segment_leads(''exec'' := segment_leads ''exec'' @ leads_in_segment),
                      files)
                 | None \<Rightarrow>
                     (filtered_segments @
                        [\<lparr>segment_id = ''exec'', segment_name = ''Executive Leadership'',
                          job_titles = job_titles seg,
                          messaging_angle = ''Revenue growth and strategic outcomes'',
                          lead_count = n\<rparr>],
                      segment_leads(''exec'' := segment_leads ''exec'' @ leads_in_segment),
                      files))
           else state)"

text \<open>
  The final block: the exec partition is written again and the first exec entry updated.
  The test \<^verbatim>\<open>'exec' in segment_leads and len(segment_leads['exec']) > 0\<close> holds exactly
  when the list at \<^verbatim>\<open>exec\<close> is not empty.
\<close>

fun set_exec_count :: "nat \<Rightarrow> segment list \<Rightarrow> segment list" where
  "set_exec_count n [] = []"
| "set_exec_count n (seg # rest) =
     (if segment_id seg = ''exec'' then seg\<lparr>lead_count := n\<rparr> # rest
      else seg # set_exec_count n rest)"

definition resave_exec :: "assign_state \<Rightarrow> assign_state" where
  "resave_exec state =
     (case state of (filtered_segments, segment_leads, files) \<Rightarrow>
        if segment_leads ''exec'' \<noteq> []
        then (set_exec_count (length (segment_leads ''exec'')) filtered_segments,
              segment_leads,
              files(segment_file ''exec'' \<mapsto> segment_leads ''exec''))
        else state)"

text \<open>
  What a run of the assigner reads from outside: the environment variable, the input
  file, the external classifier (\<open>None\<close> for any exception of \<^verbatim>\<open>cluster_job_titles\<close>,
  which selects the fallback) and the files already in the output directory.
\<close>

record assigner_env =
  anthropic_api_key :: "string option"
  input_file :: "lead list json_file"
  cluster_job_titles :: "string list \<Rightarrow> segment_def list option"
  output_dir :: "string \<rightharpoonup> lead list"

text \<open>The manifest file; its timestamp is not modelled.\<close>

record mapping =
  segments :: "segment list"
  total_leads :: nat
  total_segments :: nat

text \<open>
  The three parts of \<^verbatim>\<open>segment_by_job_title\<close>. First the segment definitions: the
  single general segment when no lead has a title, else the result of the classifier,
  else (on any exception inside the \<^verbatim>\<open>try\<close>) the fallback.
\<close>

definition segment_definitions_of ::
    "str_methods \<Rightarrow> assigner_env \<Rightarrow> lead list \<Rightarrow> segment_def list" where
  "segment_definitions_of py env leads =
     (let titles = foldl add_unique_title [] leads
      in if titles = []
         then [\<lparr>segment_id = ''general'', segment_name = ''General'', job_titles = [],
                messaging_angle = ''Business growth and operational excellence''\<rparr>]
         else case cluster_job_titles env titles of
                Some segs \<Rightarrow> segs
              | None \<Rightarrow> fallback_segmentation py titles)"

text \<open>Then the split of the leads, the unmatched ones being appended to the exec list.\<close>

definition split_leads :: "str_methods \<Rightarrow> segment_def list \<Rightarrow> lead list \<Rightarrow> segment_leads" where
  "split_leads py segment_definitions leads =
     (case foldl (assign_lead py (build_title_to_segment py segment_definitions)) (\<lambda>sid. [], [])
             leads of
        (segment_leads, unmatched_leads) \<Rightarrow>
          if unmatched_leads \<noteq> []
          then segment_leads(''exec'' := segment_leads ''exec'' @ unmatched_leads)
          else segment_leads)"

text \<open>
  \<^verbatim>\<open>segment_by_job_title\<close>. An early return with status \<^verbatim>\<open>error\<close> is \<open>Inl\<close> of its
  message (without the file name that the code appends); otherwise the result is the
  manifest written and the output directory after the size filter and the final block.
\<close>

definition segment_by_job_title ::
    "str_methods \<Rightarrow> assigner_env \<Rightarrow> int \<Rightarrow> string + mapping \<times> (string \<rightharpoonup> lead list)" where
  "segment_by_job_title py env min_segment_size =
     (if anthropic_api_key env = None \<or> anthropic_api_key env = Some []
      then Inl ''ANTHROPIC_API_KEY not found in .env file''
      else case input_file env of
        File_not_found \<Rightarrow> Inl ''Input file not found''
      | Invalid_json \<Rightarrow> Inl ''Invalid JSON in input file''
      | Parsed leads \<Rightarrow>
          let segment_definitions = segment_definitions_of py env leads;
              segment_leads = split_leads py segment_definitions leads
          in case resave_exec
                    (foldl (filter_segment min_segment_size) ([], segment_leads, output_dir env)
                       segment_definitions) of
               (filtered_segments, merged_leads, files) \<Rightarrow>
                 Inr (\<lparr>segments = filtered_segments, total_leads = length leads,
                       total_segments = length filtered_segments\<rparr>, files))"

section \<open>Destination Matcher (add\_leads\_to\_campaigns\_segmented.py)\<close>

text \<open>
  \<^verbatim>\<open>extract_segment_from_campaign_name\<close>. The argument \<open>segment_mapping\<close> is the value
  of the key \<^verbatim>\<open>segments\<close> of the parsed manifest, \<open>None\<close> when the key is absent
  (\<^verbatim>\<open>segment_mapping.get('segments', [])\<close>). The loop returns at the first segment whose
  name occurs in the campaign name.
\<close>

fun first_matching_segment :: "string \<Rightarrow> segment list \<Rightarrow> string option" where
  "first_matching_segment campaign_name [] = None"
| "first_matching_segment campaign_name (seg # segs) =
     (if str_in (segment_name seg) campaign_name then Some (segment_id seg)
      else first_matching_segment campaign_name segs)"

definition extract_segment_from_campaign_name ::
    "string \<Rightarrow> segment list option \<Rightarrow> string option" where
  "extract_segment_from_campaign_name campaign_name segment_mapping =
     first_matching_segment campaign_name
       (case segment_mapping of None \<Rightarrow> [] | Some segs \<Rightarrow> segs)"

section \<open>Batch Delivery Engine (add\_leads\_to\_campaigns\_segmented.py)\<close>

text \<open>\<^verbatim>\<open>is_valid_email\<close>: false for a missing or empty address and for one without an at sign.\<close>

definition is_valid_email :: "string option \<Rightarrow> bool" where
  "is_valid_email email =
     (case email of
        None \<Rightarrow> False
      | Some e \<Rightarrow> if e = [] \<or> \<not> str_in ''@'' e then False else True)"

text \<open>
  The body of the loop over \<open>batch\<close> in \<^verbatim>\<open>upload_single_batch\<close>: the fields are read
  with their fallbacks, and the dict comprehension drops every field whose value is falsy.
\<close>

definition format_lead :: "lead \<Rightarrow> lead" where
  "format_lead lead =
     (let email = py_or (map_of lead ''email'') (map_of lead ''contact_email'');
          first_name = py_or (py_or (map_of lead ''first_name'') (map_of lead ''firstName'')) (Some []);
          last_name = py_or (py_or (map_of lead ''last_name'') (map_of lead ''lastName'')) (Some []);
          company_name =
            py_or (py_or (py_or (map_of lead ''company_name_normalized'') (map_of lead ''company_name''))
                     (map_of lead ''companyName'')) (Some []);
          website = py_or (py_or (map_of lead ''company_website'') (map_of lead ''website'')) (Some []);
          instantly_lead =
            [(''email'', email), (''first_name'', first_name), (''last_name'', last_name),
             (''company_name'', company_name), (''website'', website),
             (''personalization'', company_name)]
      in List.map_filter
           (\<lambda>(k, v). case v of None \<Rightarrow> None | Some s \<Rightarrow> if s = [] then None else Some (k, s))
           instantly_lead)"

text \<open>
  Exceptions that leave a function are values: \<open>Inl\<close> of the exception, \<open>Inr\<close> of the
  returned value.
\<close>

datatype py_error = AttributeError | TypeError | ValueError

text \<open>
  A decoded JSON value, as far as the code looks at it. A number with a fraction or an
  exponent decodes to a float and is not modelled.
\<close>

datatype json_value =
    Json_null | Json_bool bool | Json_int int | Json_string string | Json_list | Json_dict

text \<open>
  The body of a response as \<^verbatim>\<open>response.json()\<close> sees it: not JSON at all, a JSON value
  that is not an object (a list, say), or an object, of which the model keeps the value
  of the key \<^verbatim>\<open>leads_uploaded\<close> (\<open>None\<close> when the key is absent).
\<close>

datatype response_body = Not_json | Json_not_object | Json_object "json_value option"

text \<open>
  What \<^verbatim>\<open>requests.post\<close> gives back: a \<^verbatim>\<open>RequestException\<close>, or a response with its
  status code and body. The platform is a function from the batch number of the call and
  the request data (campaign id and formatted leads) to that outcome; the headers, which
  carry the api key, are not modelled.
\<close>

datatype http_outcome = Request_exception | Response int response_body

type_synonym request_data = "string option \<times> lead list"

type_synonym instantly_api = "nat \<Rightarrow> request_data \<Rightarrow> http_outcome"

text \<open>The dict with the keys \<^verbatim>\<open>uploaded\<close> and \<^verbatim>\<open>failed\<close>.\<close>

record 'u batch_result =
  uploaded :: 'u
  failed :: int

text \<open>
  \<^verbatim>\<open>requests.post\<close> as the code calls it: the platform answers, and the request is
  added to the requests sent so far.
\<close>

definition requests_post ::
    "instantly_api \<Rightarrow> nat \<Rightarrow> request_data \<Rightarrow> request_data list \<Rightarrow>
       http_outcome \<times> request_data list" where
  "requests_post api batch_num request_data sent =
     (api batch_num request_data, sent @ [request_data])"

text \<open>
  One call of \<^verbatim>\<open>upload_single_batch\<close>: the requests it sends to the platform, and what
  it returns or raises.
\<close>

record upload_call =
  requests_sent :: "request_data list"
  returned :: "py_error + json_value batch_result"

text \<open>
  \<^verbatim>\<open>upload_single_batch\<close>. There is one \<^verbatim>\<open>requests.post\<close> and no loop around it. With
  status 200 the body is decoded inside the \<^verbatim>\<open>try\<close>: \<^verbatim>\<open>response.json()\<close> raises a
  \<^verbatim>\<open>JSONDecodeError\<close> of \<^verbatim>\<open>requests\<close> on a body that is not JSON, which is a
  \<^verbatim>\<open>RequestException\<close> and is caught; \<^verbatim>\<open>result.get\<close> raises \<^verbatim>\<open>AttributeError\<close> on a
  decoded value that is not a dict, which is not caught; the value of
  \<^verbatim>\<open>leads_uploaded\<close> is returned as it is.
\<close>

definition upload_single_batch ::
    "instantly_api \<Rightarrow> nat \<Rightarrow> lead list \<Rightarrow> string option \<Rightarrow> upload_call" where
  "upload_single_batch api batch_num batch cid =
     (let formatted_leads = map format_lead batch;
          request_data = (cid, formatted_leads)
      in case requests_post api batch_num request_data [] of
           (outcome, sent) \<Rightarrow>
             \<lparr>requests_sent = sent,
              returned =
                (case outcome of
                   Response status_code body \<Rightarrow>
                     if status_code = 200
                     then (case body of
                             Json_object leads_uploaded \<Rightarrow>
                               Inr \<lparr>uploaded = (case leads_uploaded of
                                                   None \<Rightarrow> Json_int (int (length formatted_leads))
                                                 | Some v \<Rightarrow> v),
                                    failed = 0\<rparr>
                           | Json_not_object \<Rightarrow> Inl AttributeError
                           | Not_json \<Rightarrow>
                               Inr \<lparr>uploaded = Json_int 0, failed = int (length formatted_leads)\<rparr>)
                     else Inr \<lparr>uploaded = Json_int 0, failed = int (length formatted_leads)\<rparr>
                 | Request_exception \<Rightarrow>
                     Inr \<lparr>uploaded = Json_int 0, failed = int (length formatted_leads)\<rparr>)\<rparr>)"

text \<open>
  \<^verbatim>\<open>range(0, stop, step)\<close>: a \<^verbatim>\<open>ValueError\<close> for step 0, empty for a negative step
  (the stop is a length).
\<close>

definition range_from_0 :: "nat \<Rightarrow> int \<Rightarrow> py_error + nat list" where
  "range_from_0 stop step =
     (if step = 0 then Inl ValueError
      else if step < 0 then Inr []
      else Inr (map (\<lambda>k. k * nat step) [0..<(stop + nat step - 1) div nat step]))"

text \<open>
  \<^verbatim>\<open>[valid_leads[i:i + batch_size] for i in range(0, len(valid_leads), batch_size)]\<close>.
  A slice stops at the end of the list, so for a positive batch size it is \<open>take\<close> after
  \<open>drop\<close>.
\<close>

definition make_batches :: "int \<Rightarrow> 'a list \<Rightarrow> py_error + 'a list list" where
  "make_batches batch_size valid_leads =
     (case range_from_0 (length valid_leads) batch_size of
        Inl e \<Rightarrow> Inl e
      | Inr starts \<Rightarrow> Inr (map (\<lambda>i. take (nat batch_size) (drop i valid_leads)) starts))"

text \<open>
  The result of one campaign is a dict with the keys \<^verbatim>\<open>status\<close>, \<^verbatim>\<open>campaign_id\<close> and
  \<^verbatim>\<open>campaign_name\<close>, and with \<^verbatim>\<open>reason\<close>, \<^verbatim>\<open>message\<close> or the four counters depending
  on the path that built it. An absent key is \<open>None\<close>; the four counters are present
  together or not at all and form the field \<open>counts\<close>.
\<close>

record with_status =
  status :: string

record upload_counts = "int batch_result" +
  total_leads :: nat
  valid_leads :: nat

record campaign_result = with_status +
  campaign_id :: "string option"
  campaign_name :: string
  reason :: "string option"
  message :: "string option"
  counts :: "upload_counts option"

text \<open>
  \<^verbatim>\<open>total_uploaded += result["uploaded"]\<close> on an integer total: an integer is added, a
  boolean counts as 0 or 1, every other value raises \<^verbatim>\<open>TypeError\<close>.
\<close>

definition int_of_json :: "json_value \<Rightarrow> int option" where
  "int_of_json v =
     (case v of Json_int n \<Rightarrow> Some n | Json_bool b \<Rightarrow> Some (if b then 1 else 0) | _ \<Rightarrow> None)"

definition add_batch_result ::
    "int \<times> int \<Rightarrow> json_value batch_result \<Rightarrow> py_error + int \<times> int" where
  "add_batch_result totals result =
     (case totals of (total_uploaded, total_failed) \<Rightarrow>
        case int_of_json (uploaded result) of
          None \<Rightarrow> Inl TypeError
        | Some n \<Rightarrow> Inr (total_uploaded + n, total_failed + failed result))"

text \<open>
  The loop over \<^verbatim>\<open>as_completed\<close>: \<^verbatim>\<open>future.result()\<close> raises what the upload raised,
  otherwise the counters of the batch result are added. The model takes the uploads in
  submission order; the totals do not depend on the order, nor does whether the loop
  raises (shown below).
\<close>

fun collect_results ::
    "int \<times> int \<Rightarrow> (py_error + json_value batch_result) list \<Rightarrow> py_error + int \<times> int" where
  "collect_results totals [] = Inr totals"
| "collect_results totals (Inl e # futures) = Inl e"
| "collect_results totals (Inr result # futures) =
     (case add_batch_result totals result of
        Inl e \<Rightarrow> Inl e
      | Inr totals' \<Rightarrow> collect_results totals' futures)"

definition enumerate_from :: "nat \<Rightarrow> 'a list \<Rightarrow> (nat \<times> 'a) list" where
  "enumerate_from n xs = zip [n..<n + length xs] xs"

text \<open>
  \<^verbatim>\<open>add_leads_to_campaign\<close>. With no batch (a negative batch size) the thread pool is
  created with \<^verbatim>\<open>max_workers\<close> = 0, which raises \<^verbatim>\<open>ValueError\<close>.
\<close>

definition add_leads_to_campaign ::
    "instantly_api \<Rightarrow> lead list \<Rightarrow> string option \<Rightarrow> string \<Rightarrow> int \<Rightarrow> py_error + campaign_result" where
  "add_leads_to_campaign api leads cid cname batch_size =
     (let valid_leads =
            filter (\<lambda>lead. is_valid_email (py_or (map_of lead ''email'') (map_of lead ''contact_email'')))
              leads
      in if valid_leads = []
         then Inr \<lparr>status = ''error'', campaign_id = cid, campaign_name = cname, reason = None,
                   message = Some ''No leads with valid email addresses'', counts = None\<rparr>
         else
           case make_batches batch_size valid_leads of
             Inl e \<Rightarrow> Inl e
           | Inr batches \<Rightarrow>
               if batches = [] then Inl ValueError
               else
                 case collect_results (0, 0)
                        (map (\<lambda>(batch_num, batch). returned (upload_single_batch api batch_num batch cid))
                           (enumerate_from 1 batches)) of
                   Inl e \<Rightarrow> Inl e
                 | Inr (total_uploaded, total_failed) \<Rightarrow>
                     Inr \<lparr>status = (if total_failed = 0 then ''success'' else ''partial''),
                          campaign_id = cid, campaign_name = cname, reason = None, message = None,
                          counts = Some \<lparr>uploaded = total_uploaded, failed = total_failed,
                                         total_leads = length leads,
                                         valid_leads = length valid_leads\<rparr>\<rparr>)"

section \<open>The delivery run (add\_leads\_to\_campaigns\_segmented.py)\<close>

text \<open>
  What a run reads from outside: the environment variable, the campaigns file (the value
  of its key \<^verbatim>\<open>campaigns\<close>, \<open>None\<close> when absent), the manifest file (the value of its
  key \<^verbatim>\<open>segments\<close>), the partition files by name, and the platform.
\<close>

record delivery_env =
  instantly_api_key :: "string option"
  campaigns_file :: "campaign list option json_file"
  segments_file :: "segment list option json_file"
  segment_files :: "string \<Rightarrow> lead list json_file"
  post :: instantly_api

record summary =
  campaigns_processed :: nat
  total_uploaded :: int
  total_failed :: int
  campaigns_skipped :: nat

record output_data = with_status +
  results :: "campaign_result list"
  summary :: summary

text \<open>
  The body of the loop over \<open>successful_campaigns\<close>. The state is the four local
  variables \<^verbatim>\<open>results\<close>, \<^verbatim>\<open>total_uploaded\<close>, \<^verbatim>\<open>total_failed\<close> and \<^verbatim>\<open>total_skipped\<close>
  (here \<open>res\<close>, \<open>n_uploaded\<close>, \<open>n_failed\<close>, \<open>n_skipped\<close>, the first names being the keys
  of the report); each \<^verbatim>\<open>continue\<close> is a branch that returns the state, and an
  exception of \<^verbatim>\<open>add_leads_to_campaign\<close> leaves the loop.
\<close>

type_synonym run_state = "campaign_result list \<times> int \<times> int \<times> nat"

definition process_campaign ::
    "delivery_env \<Rightarrow> segment list option \<Rightarrow> run_state \<Rightarrow> campaign \<Rightarrow> py_error + run_state" where
  "process_campaign env segment_mapping state campaign =
     (case state of (res, n_uploaded, n_failed, n_skipped) \<Rightarrow>
        let cname = (case map_of campaign ''campaign_name'' of None \<Rightarrow> ''Unknown'' | Some n \<Rightarrow> n);
            cid = map_of campaign ''campaign_id'';
            segment_id = extract_segment_from_campaign_name cname segment_mapping
        in if segment_id = None \<or> segment_id = Some []
           then Inr (res @ [\<lparr>status = ''skipped'', campaign_id = cid, campaign_name = cname,
                              reason = Some ''Could not identify segment from campaign name'',
                              message = None, counts = None\<rparr>],
                     n_uploaded, n_failed, n_skipped + 1)
           else
             (case segment_files env (segment_file (the segment_id)) of
                File_not_found \<Rightarrow>
                  Inr (res @ [\<lparr>status = ''error'', campaign_id = cid, campaign_name = cname,
                               reason = Some (''Segment file not found: '' @ segment_file (the segment_id)),
                               message = None, counts = None\<rparr>],
                       n_uploaded, n_failed + 1, n_skipped)
              | Invalid_json \<Rightarrow>
                  Inr (res @ [\<lparr>status = ''error'', campaign_id = cid, campaign_name = cname,
                               reason = Some ''Invalid JSON in segment file'',
                               message = None, counts = None\<rparr>],
                       n_uploaded, n_failed + 1, n_skipped)
              | Parsed segment_leads \<Rightarrow>
                  if segment_leads = []
                  then Inr (res @ [\<lparr>status = ''skipped'', campaign_id = cid, campaign_name = cname,
                                     reason = Some ''No leads in segment'',
                                     message = None, counts = None\<rparr>],
                            n_uploaded, n_failed, n_skipped + 1)
                  else
                    (case add_leads_to_campaign (post env) segment_leads cid cname 100 of
                       Inl e \<Rightarrow> Inl e
                     | Inr result \<Rightarrow>
                         Inr (res @ [result],
                              n_uploaded + (case counts result of None \<Rightarrow> 0 | Some c \<Rightarrow> uploaded c),
                              n_failed + (case counts result of None \<Rightarrow> 0 | Some c \<Rightarrow> failed c),
                              n_skipped))))"

fun process_campaigns ::
    "delivery_env \<Rightarrow> segment list option \<Rightarrow> run_state \<Rightarrow> campaign list \<Rightarrow> py_error + run_state" where
  "process_campaigns env segment_mapping state [] = Inr state"
| "process_campaigns env segment_mapping state (campaign # campaigns) =
     (case process_campaign env segment_mapping state campaign of
        Inl e \<Rightarrow> Inl e
      | Inr state' \<Rightarrow> process_campaigns env segment_mapping state' campaigns)"

text \<open>
  \<^verbatim>\<open>add_leads_to_campaigns_segmented\<close> ends in one of three ways: an exception leaves
  it, it returns early with status \<^verbatim>\<open>error\<close> and a message (here without the file name
  that the code appends), or it writes the report to the output file and returns a dict
  that repeats the status and the summary of the report.
\<close>

datatype run_result = Raised py_error | Error_return string | Report output_data

definition add_leads_to_campaigns_segmented :: "delivery_env \<Rightarrow> run_result" where
  "add_leads_to_campaigns_segmented env =
     (if instantly_api_key env = None \<or> instantly_api_key env = Some []
      then Error_return ''INSTANTLY_API_KEY not found in .env file''
      else case campaigns_file env of
        File_not_found \<Rightarrow> Error_return ''Campaigns file not found''
      | Invalid_json \<Rightarrow> Error_return ''Invalid JSON in campaigns file''
      | Parsed campaigns_data \<Rightarrow>
          let campaigns = (case campaigns_data of None \<Rightarrow> [] | Some cs \<Rightarrow> cs);
              successful_campaigns = filter (\<lambda>c. map_of c ''status'' = Some ''success'') campaigns
          in if successful_campaigns = []
             then Error_return ''No successful campaigns found in campaigns file''
             else case segments_file env of
               File_not_found \<Rightarrow> Error_return ''Segment mapping file not found''
             | Invalid_json \<Rightarrow> Error_return ''Invalid JSON in segments file''
             | Parsed segment_mapping \<Rightarrow>
                 (case process_campaigns env segment_mapping ([], 0, 0, 0) successful_campaigns of
                    Inl e \<Rightarrow> Raised e
                  | Inr (res, n_uploaded, n_failed, n_skipped) \<Rightarrow>
                      Report \<lparr>status = (if n_failed = 0 \<and> n_skipped = 0
                                         then ''success'' else ''partial''),
                              results = res,
                              summary = \<lparr>campaigns_processed = length successful_campaigns,
                                         total_uploaded = n_uploaded,
                                         total_failed = n_failed,
                                         campaigns_skipped = n_skipped\<rparr>\<rparr>))"

text \<open>
  \<^verbatim>\<open>main\<close>: the exit code is 0 when the returned status is \<^verbatim>\<open>success\<close>, 1 otherwise;
  an exception that nothing catches ends the process with code 1.
\<close>

definition main :: "delivery_env \<Rightarrow> int" where
  "main env =
     (case add_leads_to_campaigns_segmented env of
        Raised e \<Rightarrow> 1
      | Error_return msg \<Rightarrow> 1
      | Report report \<Rightarrow> if status report = ''success'' then 0 else 1)"

section \<open>Notions used in the statements about the fallback classifier\<close>

text \<open>
  The bucket of a title in the words of claim C9: the lowered title is tested against the
  keyword lists of exec, operations, marketing, sales and technical, in this order, and
  goes to general when none matches.
\<close>

definition title_bucket :: "str_methods \<Rightarrow> string \<Rightarrow> string" where
  "title_bucket py title =
     (let title_lower = lower py title
      in if any_keyword [''ceo'', ''founder'', ''owner'', ''president'', ''managing director'',
                         ''chief executive''] title_lower
         then ''exec''
         else if any_keyword [''coo'', ''operations'', ''chief operating''] title_lower
         then ''operations''
         else if any_keyword [''cmo'', ''marketing'', ''brand'', ''chief marketing''] title_lower
         then ''marketing''
         else if any_keyword [''sales'', ''business development'', ''revenue''] title_lower
         then ''sales''
         else if any_keyword [''cto'', ''technology'', ''engineering'', ''technical'',
                              ''chief technology''] title_lower
         then ''technical''
         else ''general'')"

text \<open>
  The general titles are merged into exec when there are fewer than 10 of them and some
  title is in the exec bucket; \<open>fallback_segment_of\<close> is the segment id that a title
  then gets.
\<close>

definition general_is_merged :: "str_methods \<Rightarrow> string list \<Rightarrow> bool" where
  "general_is_merged py titles \<longleftrightarrow>
     length (filter (\<lambda>t. title_bucket py t = ''general'') titles) < 10 \<and>
     (\<exists>t \<in> set titles. title_bucket py t = ''exec'')"

definition fallback_segment_of :: "str_methods \<Rightarrow> string list \<Rightarrow> string \<Rightarrow> string" where
  "fallback_segment_of py titles title =
     (if title_bucket py title = ''general'' \<and> general_is_merged py titles then ''exec''
      else title_bucket py title)"

section \<open>Notions used in the statements about the assigner\<close>





section \<open>Notions used in the statements about a run\<close>

text \<open>The leads of a partition that pass the email filter of \<^verbatim>\<open>add_leads_to_campaign\<close>.\<close>

definition valid_leads_of :: "lead list \<Rightarrow> lead list" where
  "valid_leads_of leads =
     filter (\<lambda>lead. is_valid_email (py_or (map_of lead ''email'') (map_of lead ''contact_email''))) leads"

text \<open>
  The results that the uploads of the batches of a destination return, batch by batch,
  for the batch size 100 of a run.
\<close>

definition returned_results ::
    "instantly_api \<Rightarrow> string option \<Rightarrow> lead list \<Rightarrow> json_value batch_result list" where
  "returned_results api cid valid =
     (case make_batches 100 valid of
        Inl e \<Rightarrow> []
      | Inr batches \<Rightarrow>
          List.map_filter
            (\<lambda>(batch_num, batch).
               case returned (upload_single_batch api batch_num batch cid) of
                 Inl e \<Rightarrow> None
               | Inr result \<Rightarrow> Some result)
            (enumerate_from 1 batches))"

text \<open>
  What one destination adds to \<^verbatim>\<open>total_failed\<close> according to claim C10: nothing when no
  segment is resolved, 1 when its partition file is missing or is not valid JSON, nothing
  when the partition has no lead with a valid email, and otherwise the sum of the failed
  counts of its batches.
\<close>

definition failed_of_campaign :: "delivery_env \<Rightarrow> segment list option \<Rightarrow> campaign \<Rightarrow> int" where
  "failed_of_campaign env segment_mapping campaign =
     (let cname = (case map_of campaign ''campaign_name'' of None \<Rightarrow> ''Unknown'' | Some n \<Rightarrow> n);
          cid = map_of campaign ''campaign_id''
      in case extract_segment_from_campaign_name cname segment_mapping of
           None \<Rightarrow> 0
         | Some sid \<Rightarrow>
             if sid = [] then 0
             else case segment_files env (segment_file sid) of
                    File_not_found \<Rightarrow> 1
                  | Invalid_json \<Rightarrow> 1
                  | Parsed segment_leads \<Rightarrow>
                      if valid_leads_of segment_leads = [] then 0
                      else sum_list (map failed (returned_results (post env) cid
                                                   (valid_leads_of segment_leads))))"

text \<open>The destinations of a run: the campaigns of the campaigns file with status \<^verbatim>\<open>success\<close>.\<close>

definition successful_campaigns :: "campaign list option \<Rightarrow> campaign list" where
  "successful_campaigns campaigns_data =
     filter (\<lambda>c. map_of c ''status'' = Some ''success'')
       (case campaigns_data of None \<Rightarrow> [] | Some cs \<Rightarrow> cs)"

section \<open>Example runs\<close>

text \<open>A manifest with three segments, and three runs of the delivery stage over it.\<close>

definition example_manifest :: "segment list" where
  "example_manifest =
     [\<lparr>segment_id = ''exec'', segment_name = ''Executive Leadership'', job_titles = [''CEO''],
       messaging_angle = ''Revenue growth and strategic outcomes'', lead_count = 150\<rparr>,
      \<lparr>segment_id = ''marketing'', segment_name = ''Marketing Leadership'', job_titles = [''CMO''],
       messaging_angle = ''Lead generation ROI and brand growth'', lead_count = 12\<rparr>,
      \<lparr>segment_id = ''sales'', segment_name = ''Sales Leadership'', job_titles = [''VP Sales''],
       messaging_angle = ''Pipeline acceleration and quota attainment'', lead_count = 10\<rparr>]"

text \<open>
  Three destinations: the first matches no segment, the partition of the second is
  missing, the third gets 150 leads in two batches.
\<close>

definition example_three_destinations :: delivery_env where
  "example_three_destinations =
     \<lparr>instantly_api_key = Some ''key'',
      campaigns_file = Parsed (Some
        [[(''campaign_id'', ''c1''), (''campaign_name'', ''Product A - Unknown Segment''),
          (''status'', ''success'')],
         [(''campaign_id'', ''c2''), (''campaign_name'', ''Product A - Marketing Leadership''),
          (''status'', ''success'')],
         [(''campaign_id'', ''c3''), (''campaign_name'', ''Product A - Executive Leadership - HVAC''),
          (''status'', ''success'')]]),
      segments_file = Parsed (Some example_manifest),
      segment_files = (\<lambda>name. if name = ''segment_exec_leads.json''
                               then Parsed (replicate 150 [(''email'', ''ann@example.com'')])
                               else File_not_found),
      post = (\<lambda>batch_num request_data. Response 200 (Json_object None))\<rparr>"

text \<open>One destination whose partition holds a single lead without a valid email.\<close>

definition example_no_valid_email :: delivery_env where
  "example_no_valid_email =
     \<lparr>instantly_api_key = Some ''key'',
      campaigns_file = Parsed (Some
        [[(''campaign_id'', ''c1''), (''campaign_name'', ''Product A - Executive Leadership''),
          (''status'', ''success'')]]),
      segments_file = Parsed (Some example_manifest),
      segment_files = (\<lambda>name. if name = ''segment_exec_leads.json''
                               then Parsed [[(''email'', ''not-an-address'')]]
                               else File_not_found),
      post = (\<lambda>batch_num request_data. Response 200 (Json_object None))\<rparr>"

text \<open>
  Three destinations on a platform that answers 500: a missing partition, a partition
  of two valid leads, and a partition without a valid email.
\<close>

definition example_mixed_failures :: delivery_env where
  "example_mixed_failures =
     \<lparr>instantly_api_key = Some ''key'',
      campaigns_file = Parsed (Some
        [[(''campaign_id'', ''c1''), (''campaign_name'', ''Product A - Marketing Leadership''),
          (''status'', ''success'')],
         [(''campaign_id'', ''c2''), (''campaign_name'', ''Product A - Executive Leadership''),
          (''status'', ''success'')],
         [(''campaign_id'', ''c3''), (''campaign_name'', ''Product A - Sales Leadership''),
          (''status'', ''success'')]]),
      segments_file = Parsed (Some example_manifest),
      segment_files = (\<lambda>name. if name = ''segment_exec_leads.json''
                               then Parsed [[(''email'', ''ann@example.com'')],
                                            [(''email'', ''bob@example.com'')]]
                               else if name = ''segment_sales_leads.json''
                               then Parsed [[(''email'', ''not-an-address'')]]
                               else File_not_found),
      post = (\<lambda>batch_num request_data. Response 500 Not_json)\<rparr>"

section \<open>Example runs of the assigner\<close>

text \<open>
  Leads with an email and a job title, the segment definitions of the first testable
  property of the assigner, and a run of the assigner with a given classifier and lead
  file on an empty output directory.
\<close>

definition example_lead :: "string \<Rightarrow> string \<Rightarrow> lead" where
  "example_lead email title = [(''email'', email), (''job_title'', title)]"

definition example_definitions :: "segment_def list" where
  "example_definitions =
     [\<lparr>segment_id = ''exec'', segment_name = ''Executive Leadership'', job_titles = [''CEO''],
       messaging_angle = ''Revenue growth and strategic outcomes''\<rparr>,
      \<lparr>segment_id = ''operations'', segment_name = ''Operations Leadership'', job_titles = [''COO''],
       messaging_angle = ''Operational efficiency with revenue impact''\<rparr>]"

definition example_assigner :: "(string list \<Rightarrow> segment_def list option) \<Rightarrow> lead list \<Rightarrow> assigner_env" where
  "example_assigner classifier leads =
     \<lparr>anthropic_api_key = Some ''key'', input_file = Parsed leads,
      cluster_job_titles = classifier, output_dir = Map.empty\<rparr>"

definition five_coo_leads :: "lead list" where
  "five_coo_leads =
     [example_lead ''ann@example.com'' ''COO'', example_lead ''bob@example.com'' ''COO'',
      example_lead ''cat@example.com'' ''COO'', example_lead ''dan@example.com'' ''COO'',
      example_lead ''eve@example.com'' ''COO'']"

definition two_ceo_one_coo :: "lead list" where
  "two_ceo_one_coo =
     [example_lead ''ann@example.com'' ''CEO'', example_lead ''bob@example.com'' ''CEO'',
      example_lead ''cat@example.com'' ''COO'']"



text \<open>Two segment definitions with the same id.\<close>

definition example_two_operations :: "segment_def list" where
  "example_two_operations =
     [\<lparr>segment_id = ''operations'', segment_name = ''Operations Leadership'', job_titles = [''COO''],
       messaging_angle = ''Operational efficiency with revenue impact''\<rparr>,
      \<lparr>segment_id = ''operations'', segment_name = ''Operations Managers'', job_titles = [''COO''],
       messaging_angle = ''Operational efficiency with revenue impact''\<rparr>]"

section \<open>Facts about strings\<close>

lemma str_in_iff_sublist: "str_in k s \<longleftrightarrow> sublist k s"
  by (induction s) (simp_all add: sublist_Cons_right)

section \<open>Destination Matcher: first match wins\<close>

lemma first_matching_segment_None:
  "first_matching_segment n segs = None \<longleftrightarrow> (\<forall>s \<in> set segs. \<not> str_in (segment_name s) n)"
  by (induction segs) simp_all

lemma first_matching_segment_Some:
  "first_matching_segment n segs = Some sid \<longleftrightarrow>
     (\<exists>i < length segs. str_in (segment_name (segs ! i)) n \<and> segment_id (segs ! i) = sid \<and>
        (\<forall>j < i. \<not> str_in (segment_name (segs ! j)) n))"
proof (induction segs)
  case Nil
  show ?case by simp
next
  case (Cons seg segs)
  show ?case
  proof (cases "str_in (segment_name seg) n")
    case True
    have "(\<exists>i < length (seg # segs). str_in (segment_name ((seg # segs) ! i)) n \<and>
             segment_id ((seg # segs) ! i) = sid \<and>
             (\<forall>j < i. \<not> str_in (segment_name ((seg # segs) ! j)) n)) \<longleftrightarrow> segment_id seg = sid"
    proof
      assume "\<exists>i < length (seg # segs). str_in (segment_name ((seg # segs) ! i)) n \<and>
             segment_id ((seg # segs) ! i) = sid \<and>
             (\<forall>j < i. \<not> str_in (segment_name ((seg # segs) ! j)) n)"
      then obtain i where i: "segment_id ((seg # segs) ! i) = sid"
        "\<forall>j < i. \<not> str_in (segment_name ((seg # segs) ! j)) n" by blast
      have "i = 0"
      proof (rule ccontr)
        assume "i \<noteq> 0"
        then have "0 < i" by simp
        with i(2) have "\<not> str_in (segment_name ((seg # segs) ! 0)) n" by blast
        with True show False by simp
      qed
      with i(1) show "segment_id seg = sid" by simp
    next
      assume "segment_id seg = sid"
      with True show "\<exists>i < length (seg # segs). str_in (segment_name ((seg # segs) ! i)) n \<and>
             segment_id ((seg # segs) ! i) = sid \<and>
             (\<forall>j < i. \<not> str_in (segment_name ((seg # segs) ! j)) n)"
        by (intro exI [of _ 0]) simp
    qed
    with True show ?thesis by auto
  next
    case False
    have "(\<exists>i < length (seg # segs). str_in (segment_name ((seg # segs) ! i)) n \<and>
             segment_id ((seg # segs) ! i) = sid \<and>
             (\<forall>j < i. \<not> str_in (segment_name ((seg # segs) ! j)) n)) \<longleftrightarrow>
          (\<exists>i < length segs. str_in (segment_name (segs ! i)) n \<and> segment_id (segs ! i) = sid \<and>
             (\<forall>j < i. \<not> str_in (segment_name (segs ! j)) n))"
      (is "?L \<longleftrightarrow> ?R")
    proof
      assume ?L
      then obtain i where i: "i < length (seg # segs)"
        "str_in (segment_name ((seg # segs) ! i)) n" "segment_id ((seg # segs) ! i) = sid"
        "\<forall>j < i. \<not> str_in (segment_name ((seg # segs) ! j)) n" by blast
      from i(2) False obtain k where k: "i = Suc k" by (cases i) auto
      have "\<forall>j < k. \<not> str_in (segment_name (segs ! j)) n"
      proof (intro allI impI)
        fix j assume "j < k"
        then have "Suc j < i" using k by simp
        with i(4) have "\<not> str_in (segment_name ((seg # segs) ! Suc j)) n" by blast
        then show "\<not> str_in (segment_name (segs ! j)) n" by simp
      qed
      with i k show ?R by (intro exI [of _ k]) simp
    next
      assume ?R
      then obtain k where k: "k < length segs" "str_in (segment_name (segs ! k)) n"
        "segment_id (segs ! k) = sid" "\<forall>j < k. \<not> str_in (segment_name (segs ! j)) n" by blast
      have "\<forall>j < Suc k. \<not> str_in (segment_name ((seg # segs) ! j)) n"
      proof (intro allI impI)
        fix j assume j: "j < Suc k"
        show "\<not> str_in (segment_name ((seg # segs) ! j)) n"
        proof (cases j)
          case 0
          with False show ?thesis by simp
        next
          case (Suc j')
          with j k(4) show ?thesis by simp
        qed
      qed
      with k show ?L by (intro exI [of _ "Suc k"]) simp
    qed
    with False Cons.IH show ?thesis by simp
  qed
qed

text \<open>
  Claim C8. The Destination Matcher goes through the segments of the manifest in stored
  order and returns the segment id of the first segment whose name occurs in the display
  name as a literal, case-sensitive substring; it returns \<open>None\<close> exactly when no segment
  name occurs in it. With the segment names Executive Leadership and Marketing Leadership,
  the name "Product A - Executive Leadership - HVAC" resolves to the exec segment and
  "Product A - Unknown Segment" is unresolved; a name that differs only in case is
  unresolved too.
\<close>

theorem destination_matcher_first_match:
  "(extract_segment_from_campaign_name name (Some segs) = Some sid \<longleftrightarrow>
      (\<exists>i < length segs. sublist (segment_name (segs ! i)) name \<and> segment_id (segs ! i) = sid \<and>
         (\<forall>j < i. \<not> sublist (segment_name (segs ! j)) name))) \<and>
   (extract_segment_from_campaign_name name (Some segs) = None \<longleftrightarrow>
      (\<forall>s \<in> set segs. \<not> sublist (segment_name s) name)) \<and>
   extract_segment_from_campaign_name ''Product A - Executive Leadership - HVAC''
     (Some [\<lparr>segment_id = ''exec'', segment_name = ''Executive Leadership'', job_titles = ts,
             messaging_angle = a, lead_count = n\<rparr>,
            \<lparr>segment_id = ''marketing'', segment_name = ''Marketing Leadership'',
             job_titles = ts', messaging_angle = a', lead_count = n'\<rparr>]) = Some ''exec'' \<and>
   extract_segment_from_campaign_name ''Product A - Unknown Segment''
     (Some [\<lparr>segment_id = ''exec'', segment_name = ''Executive Leadership'', job_titles = ts,
             messaging_angle = a, lead_count = n\<rparr>,
            \<lparr>segment_id = ''marketing'', segment_name = ''Marketing Leadership'',
             job_titles = ts', messaging_angle = a', lead_count = n'\<rparr>]) = None \<and>
   extract_segment_from_campaign_name ''product a - executive leadership - hvac''
     (Some [\<lparr>segment_id = ''exec'', segment_name = ''Executive Leadership'', job_titles = ts,
             messaging_angle = a, lead_count = n\<rparr>,
            \<lparr>segment_id = ''marketing'', segment_name = ''Marketing Leadership'',
             job_titles = ts', messaging_angle = a', lead_count = n'\<rparr>]) = None"
proof (intro conjI)
  show "extract_segment_from_campaign_name name (Some segs) = Some sid \<longleftrightarrow>
           (\<exists>i < length segs. sublist (segment_name (segs ! i)) name \<and> segment_id (segs ! i) = sid \<and>
              (\<forall>j < i. \<not> sublist (segment_name (segs ! j)) name))"
    using first_matching_segment_Some [of name segs sid]
    by (simp add: extract_segment_from_campaign_name_def str_in_iff_sublist)
  show "extract_segment_from_campaign_name name (Some segs) = None \<longleftrightarrow>
           (\<forall>s \<in> set segs. \<not> sublist (segment_name s) name)"
    using first_matching_segment_None [of name segs]
    by (simp add: extract_segment_from_campaign_name_def str_in_iff_sublist)
qed (simp_all add: extract_segment_from_campaign_name_def)

theorem destination_matcher_first_match_witness:
  "extract_segment_from_campaign_name ''Product A - Marketing Leadership''
     (Some [\<lparr>segment_id = ''exec'', segment_name = ''Executive Leadership'', job_titles = [''CEO''],
             messaging_angle = ''Revenue growth'', lead_count = 12\<rparr>,
            \<lparr>segment_id = ''marketing'', segment_name = ''Marketing Leadership'',
             job_titles = [''CMO''], messaging_angle = ''Brand growth'', lead_count = 11\<rparr>])
     = Some ''marketing'' \<and>
   (\<exists>i < 2. sublist (segment_name
        ([\<lparr>segment_id = ''exec'', segment_name = ''Executive Leadership'', job_titles = [''CEO''],
           messaging_angle = ''Revenue growth'', lead_count = 12\<rparr>,
          \<lparr>segment_id = ''marketing'', segment_name = ''Marketing Leadership'',
           job_titles = [''CMO''], messaging_angle = ''Brand growth'', lead_count = 11\<rparr>] ! i))
        ''Product A - Marketing Leadership'')"
proof -
  let ?e = "\<lparr>segment_id = ''exec'', segment_name = ''Executive Leadership'', job_titles = [''CEO''],
             messaging_angle = ''Revenue growth'', lead_count = 12\<rparr>"
  let ?m = "\<lparr>segment_id = ''marketing'', segment_name = ''Marketing Leadership'',
             job_titles = [''CMO''], messaging_angle = ''Brand growth'', lead_count = 11\<rparr>"
  have r: "extract_segment_from_campaign_name ''Product A - Marketing Leadership''
             (Some [?e, ?m]) = Some ''marketing''"
    by (simp add: extract_segment_from_campaign_name_def)
  from destination_matcher_first_match [of "''Product A - Marketing Leadership''"
      "[?e, ?m]" "''marketing''"] r
  have "\<exists>i < length [?e, ?m]. sublist (segment_name ([?e, ?m] ! i)) ''Product A - Marketing Leadership'' \<and>
          segment_id ([?e, ?m] ! i) = ''marketing'' \<and>
          (\<forall>j < i. \<not> sublist (segment_name ([?e, ?m] ! j)) ''Product A - Marketing Leadership'')"
    by blast
  then obtain i where i: "i < length [?e, ?m]"
    "sublist (segment_name ([?e, ?m] ! i)) ''Product A - Marketing Leadership''" by blast
  from i(1) have "i < 2" by simp
  with i(2) have "\<exists>i < 2. sublist (segment_name ([?e, ?m] ! i)) ''Product A - Marketing Leadership''"
    by blast
  with r show ?thesis by blast
qed

section \<open>Batch Delivery Engine: the result of one batch\<close>

text \<open>
  Claim C6, as amended. A batch upload sends exactly one request, whatever the outcome.
  When the response has status 200 and its body is a JSON object, the result is uploaded =
  the value of \<^verbatim>\<open>leads_uploaded\<close> in the response (the batch size when the key is absent)
  and failed = 0. On every other status, the other 2xx codes included, on a response with
  status 200 whose body is not JSON, and on a request exception, the whole batch is
  counted as failed: uploaded = 0 and failed = the batch size, without partial credit.
  The amended claim says nothing about a response with status 200 whose body is JSON but
  not an object; the last conjunct records that the call then raises.
\<close>

theorem upload_single_batch_only_200_counts:
  "requests_sent (upload_single_batch api n batch cid) = [(cid, map format_lead batch)] \<and>
   (api n (cid, map format_lead batch) = Response 200 (Json_object field) \<longrightarrow>
      returned (upload_single_batch api n batch cid) =
        Inr \<lparr>uploaded = (case field of None \<Rightarrow> Json_int (int (length batch)) | Some v \<Rightarrow> v),
             failed = 0\<rparr>) \<and>
   (api n (cid, map format_lead batch) = Response 200 Not_json \<longrightarrow>
      returned (upload_single_batch api n batch cid) =
        Inr \<lparr>uploaded = Json_int 0, failed = int (length batch)\<rparr>) \<and>
   (api n (cid, map format_lead batch) = Response code body \<and> code \<noteq> 200 \<longrightarrow>
      returned (upload_single_batch api n batch cid) =
        Inr \<lparr>uploaded = Json_int 0, failed = int (length batch)\<rparr>) \<and>
   (api n (cid, map format_lead batch) = Request_exception \<longrightarrow>
      returned (upload_single_batch api n batch cid) =
        Inr \<lparr>uploaded = Json_int 0, failed = int (length batch)\<rparr>) \<and>
   (api n (cid, map format_lead batch) = Response 200 Json_not_object \<longrightarrow>
      returned (upload_single_batch api n batch cid) = Inl AttributeError)"
proof (intro conjI impI)
  show "requests_sent (upload_single_batch api n batch cid) = [(cid, map format_lead batch)]"
    by (simp add: upload_single_batch_def requests_post_def Let_def)
next
  assume "api n (cid, map format_lead batch) = Response 200 (Json_object field)"
  then show "returned (upload_single_batch api n batch cid) =
        Inr \<lparr>uploaded = (case field of None \<Rightarrow> Json_int (int (length batch)) | Some v \<Rightarrow> v),
             failed = 0\<rparr>"
    by (cases field) (simp_all add: upload_single_batch_def requests_post_def Let_def)
next
  assume "api n (cid, map format_lead batch) = Response 200 Not_json"
  then show "returned (upload_single_batch api n batch cid) =
        Inr \<lparr>uploaded = Json_int 0, failed = int (length batch)\<rparr>"
    by (simp add: upload_single_batch_def requests_post_def Let_def)
next
  assume "api n (cid, map format_lead batch) = Response code body \<and> code \<noteq> 200"
  then show "returned (upload_single_batch api n batch cid) =
        Inr \<lparr>uploaded = Json_int 0, failed = int (length batch)\<rparr>"
    by (simp add: upload_single_batch_def requests_post_def Let_def)
next
  assume "api n (cid, map format_lead batch) = Request_exception"
  then show "returned (upload_single_batch api n batch cid) =
        Inr \<lparr>uploaded = Json_int 0, failed = int (length batch)\<rparr>"
    by (simp add: upload_single_batch_def requests_post_def Let_def)
next
  assume "api n (cid, map format_lead batch) = Response 200 Json_not_object"
  then show "returned (upload_single_batch api n batch cid) = Inl AttributeError"
    by (simp add: upload_single_batch_def requests_post_def Let_def)
qed

text \<open>
  The claim as stated speaks of any 2xx response and of the batch size as the default.
  A response with status 201 that reports one uploaded lead is counted as a failed batch,
  and so is a response with status 200 whose body is not JSON.
\<close>

theorem upload_single_batch_2xx_counterexample:
  "returned (upload_single_batch (\<lambda>n r. Response 201 (Json_object (Some (Json_int 1)))) 1
       [[(''email'', ''ann@example.com'')]] (Some ''c1'')) =
     Inr \<lparr>uploaded = Json_int 0, failed = 1\<rparr> \<and>
   returned (upload_single_batch (\<lambda>n r. Response 201 (Json_object (Some (Json_int 1)))) 1
       [[(''email'', ''ann@example.com'')]] (Some ''c1'')) \<noteq>
     Inr \<lparr>uploaded = Json_int 1, failed = 0\<rparr> \<and>
   returned (upload_single_batch (\<lambda>n r. Response 200 Not_json) 1
       [[(''email'', ''ann@example.com'')]] (Some ''c1'')) =
     Inr \<lparr>uploaded = Json_int 0, failed = 1\<rparr> \<and>
   returned (upload_single_batch (\<lambda>n r. Response 200 Not_json) 1
       [[(''email'', ''ann@example.com'')]] (Some ''c1'')) \<noteq>
     Inr \<lparr>uploaded = Json_int 1, failed = 0\<rparr>"
  by (simp add: upload_single_batch_def requests_post_def Let_def)

theorem upload_single_batch_only_200_counts_witness:
  "requests_sent
     (upload_single_batch
        (\<lambda>n r. if n = 1 then Response 200 (Json_object None)
                else if n = 2 then Response 201 (Json_object (Some (Json_int 2)))
                else Response 200 Not_json) 1
        [[(''email'', ''ann@example.com'')], [(''email'', ''bob@example.com'')]] (Some ''c1'')) =
     [(Some ''c1'', map format_lead
         [[(''email'', ''ann@example.com'')], [(''email'', ''bob@example.com'')]])] \<and>
   returned
     (upload_single_batch
        (\<lambda>n r. if n = 1 then Response 200 (Json_object None)
                else if n = 2 then Response 201 (Json_object (Some (Json_int 2)))
                else Response 200 Not_json) 1
        [[(''email'', ''ann@example.com'')], [(''email'', ''bob@example.com'')]] (Some ''c1'')) =
     Inr \<lparr>uploaded = Json_int 2, failed = 0\<rparr> \<and>
   returned
     (upload_single_batch
        (\<lambda>n r. if n = 1 then Response 200 (Json_object None)
                else if n = 2 then Response 201 (Json_object (Some (Json_int 2)))
                else Response 200 Not_json) 2
        [[(''email'', ''ann@example.com'')], [(''email'', ''bob@example.com'')]] (Some ''c1'')) =
     Inr \<lparr>uploaded = Json_int 0, failed = 2\<rparr> \<and>
   returned
     (upload_single_batch
        (\<lambda>n r. if n = 1 then Response 200 (Json_object None)
                else if n = 2 then Response 201 (Json_object (Some (Json_int 2)))
                else Response 200 Not_json) 3
        [[(''email'', ''ann@example.com'')], [(''email'', ''bob@example.com'')]] (Some ''c1'')) =
     Inr \<lparr>uploaded = Json_int 0, failed = 2\<rparr>"
proof -
  let ?api = "\<lambda>(n::nat) (r::request_data).
      if n = 1 then Response 200 (Json_object None)
      else if n = 2 then Response 201 (Json_object (Some (Json_int 2)))
      else Response 200 Not_json"
  let ?batch = "[[(''email'', ''ann@example.com'')], [(''email'', ''bob@example.com'')]]"
  note t1 = upload_single_batch_only_200_counts
    [of ?api 1 ?batch "Some ''c1''" None 201 Not_json]
  note t2 = upload_single_batch_only_200_counts
    [of ?api 2 ?batch "Some ''c1''" None 201 "Json_object (Some (Json_int 2))"]
  note t3 = upload_single_batch_only_200_counts
    [of ?api 3 ?batch "Some ''c1''" None 201 Not_json]
  have 1: "requests_sent (upload_single_batch ?api 1 ?batch (Some ''c1'')) =
      [(Some ''c1'', map format_lead ?batch)]" using t1 by blast
  have 2: "returned (upload_single_batch ?api 1 ?batch (Some ''c1'')) =
      Inr \<lparr>uploaded = Json_int 2, failed = 0\<rparr>" using t1 by simp
  have 3: "returned (upload_single_batch ?api 2 ?batch (Some ''c1'')) =
      Inr \<lparr>uploaded = Json_int 0, failed = 2\<rparr>" using t2 by simp
  have 4: "returned (upload_single_batch ?api 3 ?batch (Some ''c1'')) =
      Inr \<lparr>uploaded = Json_int 0, failed = 2\<rparr>" using t3 by simp
  from 1 2 3 4 show ?thesis by blast
qed

section \<open>Batch Delivery Engine: batches and their aggregation\<close>

text \<open>
  The loop over the finished uploads returns totals exactly when no upload raised and
  every \<^verbatim>\<open>uploaded\<close> value can be added to an integer; the totals are then sums. So
  neither the totals nor whether the loop raises depend on the order in which the
  uploads finish.
\<close>

lemma collect_results_Inr:
  "collect_results (u, f) rs = Inr t \<longleftrightarrow>
     (\<forall>r \<in> set rs. \<exists>b. r = Inr b \<and> int_of_json (uploaded b) \<noteq> None) \<and>
     t = (u + sum_list (map (\<lambda>r. the (int_of_json (uploaded (projr r)))) rs),
          f + sum_list (map (\<lambda>r. failed (projr r)) rs))"
proof (induction rs arbitrary: u f)
  case Nil
  show ?case by auto
next
  case (Cons r rs)
  show ?case
  proof (cases r)
    case (Inl e)
    then show ?thesis by auto
  next
    case (Inr b)
    show ?thesis
    proof (cases "int_of_json (uploaded b)")
      case None
      with Inr show ?thesis by (auto simp add: add_batch_result_def)
    next
      case (Some n)
      with Inr Cons.IH [of "u + n" "f + failed b"] show ?thesis
        by (auto simp add: add_batch_result_def algebra_simps)
    qed
  qed
qed

lemma collect_results_any_order:
  assumes "mset rs = mset rs'"
  shows "collect_results t rs = Inr x \<longleftrightarrow> collect_results t rs' = Inr x"
proof -
  from assms have s: "set rs = set rs'" by (rule mset_eq_setD)
  from assms have "mset (map (\<lambda>r. the (int_of_json (uploaded (projr r)))) rs) =
                   mset (map (\<lambda>r. the (int_of_json (uploaded (projr r)))) rs')"
    and "mset (map (\<lambda>r. failed (projr r)) rs) = mset (map (\<lambda>r. failed (projr r)) rs')"
    by (metis mset_map)+
  then have "sum_list (map (\<lambda>r. the (int_of_json (uploaded (projr r)))) rs) =
             sum_list (map (\<lambda>r. the (int_of_json (uploaded (projr r)))) rs')"
    and "sum_list (map (\<lambda>r. failed (projr r)) rs) = sum_list (map (\<lambda>r. failed (projr r)) rs')"
    by (metis sum_mset_sum_list)+
  with s show ?thesis by (cases t) (simp add: collect_results_Inr)
qed

lemma collect_results_failed:
  assumes "collect_results (u, f) rs = Inr (u', f')"
  shows "f' = f + sum_list (map failed
           (List.map_filter (\<lambda>r. case r of Inl e \<Rightarrow> None | Inr b \<Rightarrow> Some b) rs))"
  using assms
proof (induction rs arbitrary: u f)
  case Nil
  then show ?case by (simp add: List.map_filter_def)
next
  case (Cons r rs)
  show ?case
  proof (cases r)
    case (Inl e)
    with Cons.prems show ?thesis by simp
  next
    case (Inr b)
    show ?thesis
    proof (cases "int_of_json (uploaded b)")
      case None
      with Inr Cons.prems show ?thesis by (simp add: add_batch_result_def)
    next
      case (Some n)
      with Inr Cons.prems have "collect_results (u + n, f + failed b) rs = Inr (u', f')"
        by (simp add: add_batch_result_def)
      from Cons.IH [OF this] Inr show ?thesis by (simp add: List.map_filter_def)
    qed
  qed
qed

lemma range_from_0_250: "range_from_0 250 100 = Inr [0, 100, 200]"
proof -
  have "[0..<3] = [0, 1, 2::nat]" by (simp add: upt_rec)
  then show ?thesis by (simp add: range_from_0_def)
qed

lemma make_batches_250:
  assumes "length xs = 250"
  shows "make_batches 100 xs = Inr [take 100 xs, take 100 (drop 100 xs), drop 200 xs]"
  using assms by (simp add: make_batches_def range_from_0_250)

lemma enumerate_from_3: "enumerate_from 1 [a, b, c] = [(1, a), (2, b), (3, c)]"
proof -
  have "[1..<4] = [1, 2, 3::nat]" by (simp add: upt_rec)
  then show ?thesis by (simp add: enumerate_from_def)
qed

lemma upload_ok:
  assumes "api n (cid, map format_lead batch) = Response 200 (Json_object b)"
    and "b = None \<or> b = Some (Json_int (int (length batch)))"
  shows "returned (upload_single_batch api n batch cid) =
           Inr \<lparr>uploaded = Json_int (int (length batch)), failed = 0\<rparr>"
  using assms by (auto simp add: upload_single_batch_def requests_post_def Let_def)

lemma upload_fails:
  assumes "\<forall>v. api n (cid, map format_lead batch) \<noteq> Response 200 (Json_object v)"
    and "api n (cid, map format_lead batch) \<noteq> Response 200 Json_not_object"
  shows "returned (upload_single_batch api n batch cid) =
           Inr \<lparr>uploaded = Json_int 0, failed = int (length batch)\<rparr>"
proof (cases "api n (cid, map format_lead batch)")
  case Request_exception
  then show ?thesis by (simp add: upload_single_batch_def requests_post_def Let_def)
next
  case (Response code body)
  show ?thesis
  proof (cases "code = 200")
    case True
    with Response assms have "body = Not_json" by (cases body) auto
    with Response True show ?thesis by (simp add: upload_single_batch_def requests_post_def Let_def)
  next
    case False
    with Response show ?thesis by (simp add: upload_single_batch_def requests_post_def Let_def)
  qed
qed

lemma add_leads_to_campaign_status:
  assumes "add_leads_to_campaign api leads cid cname bs = Inr r" and "counts r = Some c"
  shows "status r = ''success'' \<longleftrightarrow> failed c = 0"
  using assms
  by (auto simp add: add_leads_to_campaign_def Let_def split: if_splits prod.splits sum.splits)

text \<open>
  Claim C7. For a destination with 250 leads with a valid email and batch size 100, three
  batches are formed, of sizes 100, 100 and 50, in the order of the leads. If the upload of
  batch 2 fails (a transport error, a status other than 200, or a 200 whose body is not
  JSON) while batches 1 and 3 are uploaded in full, the destination returns a result with
  uploaded = 150, failed = 100 and status partial. Whenever a destination returns
  counters, whatever the batch size, its status is success exactly when failed = 0.
\<close>

theorem three_batches_of_250:
  assumes "filter (\<lambda>lead. is_valid_email (py_or (map_of lead ''email'') (map_of lead ''contact_email'')))
             leads = valid"
    and "length valid = 250"
    and "api 1 (cid, map format_lead (take 100 valid)) = Response 200 (Json_object b1)"
    and "b1 = None \<or> b1 = Some (Json_int 100)"
    and "\<forall>v. api 2 (cid, map format_lead (take 100 (drop 100 valid))) \<noteq> Response 200 (Json_object v)"
    and "api 2 (cid, map format_lead (take 100 (drop 100 valid))) \<noteq> Response 200 Json_not_object"
    and "api 3 (cid, map format_lead (drop 200 valid)) = Response 200 (Json_object b3)"
    and "b3 = None \<or> b3 = Some (Json_int 50)"
  shows "make_batches 100 valid = Inr [take 100 valid, take 100 (drop 100 valid), drop 200 valid] \<and>
         map length [take 100 valid, take 100 (drop 100 valid), drop 200 valid] = [100, 100, 50] \<and>
         concat [take 100 valid, take 100 (drop 100 valid), drop 200 valid] = valid \<and>
         add_leads_to_campaign api leads cid cname 100 =
           Inr \<lparr>status = ''partial'', campaign_id = cid, campaign_name = cname, reason = None,
                message = None,
                counts = Some \<lparr>uploaded = 150, failed = 100, total_leads = length leads,
                               valid_leads = 250\<rparr>\<rparr> \<and>
         (\<forall>api' leads' cid' cname' bs r c.
            add_leads_to_campaign api' leads' cid' cname' bs = Inr r \<and> counts r = Some c \<longrightarrow>
            (status r = ''success'' \<longleftrightarrow> failed c = 0))"
proof -
  let ?b1 = "take 100 valid" and ?b2 = "take 100 (drop 100 valid)" and ?b3 = "drop 200 valid"
  have batches: "make_batches 100 valid = Inr [?b1, ?b2, ?b3]"
    using assms(2) by (rule make_batches_250)
  have lens: "length ?b1 = 100" "length ?b2 = 100" "length ?b3 = 50"
    using assms(2) by simp_all
  have cat: "concat [?b1, ?b2, ?b3] = valid"
  proof -
    have "?b2 @ ?b3 = drop 100 valid"
      by (metis add_2_eq_Suc' append_take_drop_id drop_drop numeral_Bit0 one_add_one)
    then show ?thesis by (simp add: append_take_drop_id)
  qed
  have r1: "returned (upload_single_batch api 1 ?b1 cid) =
      Inr \<lparr>uploaded = Json_int 100, failed = 0\<rparr>"
    using upload_ok [of api 1 cid ?b1 b1] assms(3,4) lens(1) by simp
  have r2: "returned (upload_single_batch api 2 ?b2 cid) =
      Inr \<lparr>uploaded = Json_int 0, failed = 100\<rparr>"
    using upload_fails [of api 2 cid ?b2] assms(5,6) lens(2) by simp
  have r3: "returned (upload_single_batch api 3 ?b3 cid) =
      Inr \<lparr>uploaded = Json_int 50, failed = 0\<rparr>"
    using upload_ok [of api 3 cid ?b3 b3] assms(7,8) lens(3) by simp
  have nonempty: "valid \<noteq> []" using assms(2) by auto
  have br: "map (\<lambda>(batch_num, batch). returned (upload_single_batch api batch_num batch cid))
              (enumerate_from 1 [?b1, ?b2, ?b3]) =
            [Inr \<lparr>uploaded = Json_int 100, failed = 0\<rparr>, Inr \<lparr>uploaded = Json_int 0, failed = 100\<rparr>,
             Inr \<lparr>uploaded = Json_int 50, failed = 0\<rparr>]"
    by (simp only: enumerate_from_3 list.map prod.case r1 r2 r3)
  have totals: "collect_results (0, 0)
            [Inr \<lparr>uploaded = Json_int 100, failed = 0\<rparr>, Inr \<lparr>uploaded = Json_int 0, failed = 100\<rparr>,
             Inr \<lparr>uploaded = Json_int 50, failed = 0\<rparr>] = Inr (150, 100)"
    by (simp add: add_batch_result_def int_of_json_def)
  have result: "add_leads_to_campaign api leads cid cname 100 =
      Inr \<lparr>status = ''partial'', campaign_id = cid, campaign_name = cname, reason = None,
           message = None,
           counts = Some \<lparr>uploaded = 150, failed = 100, total_leads = length leads,
                          valid_leads = 250\<rparr>\<rparr>"
    unfolding add_leads_to_campaign_def Let_def assms(1) batches sum.case br totals
    using nonempty assms(2) by simp
  have general: "\<forall>api' leads' cid' cname' bs r c.
      add_leads_to_campaign api' leads' cid' cname' bs = Inr r \<and> counts r = Some c \<longrightarrow>
      (status r = ''success'' \<longleftrightarrow> failed c = 0)"
    using add_leads_to_campaign_status by blast
  from batches lens cat result general show ?thesis by simp
qed

theorem three_batches_of_250_witness:
  "make_batches 100 (replicate 250 [(''email'', ''ann@example.com'')]) =
     Inr [replicate 100 [(''email'', ''ann@example.com'')],
          replicate 100 [(''email'', ''ann@example.com'')],
          replicate 50 [(''email'', ''ann@example.com'')]] \<and>
   add_leads_to_campaign
     (\<lambda>n r. if n = 2 then Response 200 Not_json else Response 200 (Json_object None))
     (replicate 250 [(''email'', ''ann@example.com'')]) (Some ''c1'')
     ''Product A - Executive Leadership'' 100 =
     Inr \<lparr>status = ''partial'', campaign_id = Some ''c1'',
          campaign_name = ''Product A - Executive Leadership'', reason = None, message = None,
          counts = Some \<lparr>uploaded = 150, failed = 100, total_leads = 250, valid_leads = 250\<rparr>\<rparr>"
proof -
  let ?leads = "replicate 250 [(''email'', ''ann@example.com'')]"
  let ?api = "\<lambda>(n::nat) (r::request_data).
      if n = 2 then Response 200 Not_json else Response 200 (Json_object None)"
  have h1: "filter (\<lambda>lead. is_valid_email (py_or (map_of lead ''email'') (map_of lead ''contact_email'')))
              ?leads = ?leads"
    by (simp add: is_valid_email_def py_or_def)
  have h2: "length ?leads = 250" by simp
  have h3: "?api 1 (Some ''c1'', map format_lead (take 100 ?leads)) = Response 200 (Json_object None)"
    by simp
  have h4: "(None :: json_value option) = None \<or> (None :: json_value option) = Some (Json_int 100)"
    by simp
  have h5: "\<forall>v. ?api 2 (Some ''c1'', map format_lead (take 100 (drop 100 ?leads))) \<noteq>
              Response 200 (Json_object v)"
    by simp
  have h6: "?api 2 (Some ''c1'', map format_lead (take 100 (drop 100 ?leads))) \<noteq>
              Response 200 Json_not_object"
    by simp
  have h7: "?api 3 (Some ''c1'', map format_lead (drop 200 ?leads)) = Response 200 (Json_object None)"
    by simp
  have h8: "(None :: json_value option) = None \<or> (None :: json_value option) = Some (Json_int 50)"
    by simp
  from three_batches_of_250 [OF h1 h2 h3 h4 h5 h6 h7 h8,
      where cname = "''Product A - Executive Leadership''"]
  show ?thesis by simp
qed

section \<open>The delivery run: counters of the report\<close>

lemma add_leads_to_campaign_no_valid:
  assumes "valid_leads_of leads = []"
  shows "add_leads_to_campaign api leads cid cname bs =
           Inr \<lparr>status = ''error'', campaign_id = cid, campaign_name = cname, reason = None,
                message = Some ''No leads with valid email addresses'', counts = None\<rparr>"
  using assms by (simp add: add_leads_to_campaign_def valid_leads_of_def)

lemma map_filter_map: "List.map_filter g (map h xs) = List.map_filter (\<lambda>x. g (h x)) xs"
  by (induction xs) (simp_all add: List.map_filter_simps split: option.split)

lemma add_leads_to_campaign_counts:
  assumes "valid_leads_of leads \<noteq> []"
    and "add_leads_to_campaign api leads cid cname 100 = Inr r"
  shows "\<exists>c. counts r = Some c \<and>
           failed c = sum_list (map failed (returned_results api cid (valid_leads_of leads)))"
proof -
  from assms obtain batches where
    b: "make_batches 100 (valid_leads_of leads) = Inr batches"
    unfolding add_leads_to_campaign_def Let_def valid_leads_of_def [symmetric]
    by (cases "make_batches 100 (valid_leads_of leads)") simp_all
  let ?rs = "map (\<lambda>(batch_num, batch). returned (upload_single_batch api batch_num batch cid))
               (enumerate_from 1 batches)"
  from assms b obtain u f where
    t: "collect_results (0, 0) ?rs = Inr (u, f)"
    unfolding add_leads_to_campaign_def Let_def valid_leads_of_def [symmetric]
    by (cases "collect_results (0, 0) ?rs") (auto split: if_splits simp del: One_nat_def)
  from assms b t have
    c: "counts r = Some \<lparr>uploaded = u, failed = f, total_leads = length leads,
                         valid_leads = length (valid_leads_of leads)\<rparr>"
    unfolding add_leads_to_campaign_def Let_def valid_leads_of_def [symmetric]
    by (auto split: if_splits simp del: One_nat_def)
  have "List.map_filter (\<lambda>r. case r of Inl e \<Rightarrow> None | Inr b \<Rightarrow> Some b) ?rs =
        returned_results api cid (valid_leads_of leads)"
    by (simp add: returned_results_def b map_filter_map case_prod_unfold del: One_nat_def)
  with collect_results_failed [OF t] c show ?thesis by simp
qed

lemma add_leads_to_campaign_not_skipped:
  assumes "add_leads_to_campaign api leads cid cname bs = Inr r"
  shows "status r \<noteq> ''skipped''"
  using assms
  by (auto simp add: add_leads_to_campaign_def Let_def split: if_splits prod.splits sum.splits)

lemma process_campaign_failed:
  assumes "process_campaign env m (res, u, f, k) c = Inr (res', u', f', k')"
  shows "f' = f + failed_of_campaign env m c"
proof -
  let ?cname = "case map_of c ''campaign_name'' of None \<Rightarrow> ''Unknown'' | Some n \<Rightarrow> n"
  let ?seg = "extract_segment_from_campaign_name ?cname m"
  show ?thesis
  proof (cases "?seg = None \<or> ?seg = Some []")
    case True
    with assms show ?thesis
      by (auto simp add: process_campaign_def failed_of_campaign_def Let_def)
  next
    case False
    then obtain sid where sid: "?seg = Some sid" "sid \<noteq> []" by auto
    show ?thesis
    proof (cases "segment_files env (segment_file sid)")
      case File_not_found
      with assms sid show ?thesis
        by (simp add: process_campaign_def failed_of_campaign_def Let_def)
    next
      case Invalid_json
      with assms sid show ?thesis
        by (simp add: process_campaign_def failed_of_campaign_def Let_def)
    next
      case (Parsed leads)
      show ?thesis
      proof (cases "valid_leads_of leads = []")
        case True
        show ?thesis
        proof (cases "leads = []")
          case True
          with assms sid Parsed show ?thesis
            by (simp add: process_campaign_def failed_of_campaign_def Let_def valid_leads_of_def)
        next
          case False
          with assms sid Parsed \<open>valid_leads_of leads = []\<close> show ?thesis
            by (simp add: process_campaign_def failed_of_campaign_def Let_def
                add_leads_to_campaign_no_valid)
        qed
      next
        case False
        then have ne: "leads \<noteq> []" by (auto simp add: valid_leads_of_def)
        from assms sid Parsed ne obtain r where
          r: "add_leads_to_campaign (post env) leads (map_of c ''campaign_id'') ?cname 100 = Inr r"
          by (cases "add_leads_to_campaign (post env) leads (map_of c ''campaign_id'') ?cname 100")
             (simp_all add: process_campaign_def Let_def)
        from add_leads_to_campaign_counts [OF False r]
        obtain cs where cs: "counts r = Some cs"
          "failed cs = sum_list (map failed
             (returned_results (post env) (map_of c ''campaign_id'') (valid_leads_of leads)))"
          by blast
        from assms sid Parsed False ne r cs show ?thesis
          by (simp add: process_campaign_def failed_of_campaign_def Let_def)
      qed
    qed
  qed
qed

lemma process_campaigns_failed:
  assumes "process_campaigns env m (res, u, f, k) cs = Inr (res', u', f', k')"
  shows "f' = f + sum_list (map (failed_of_campaign env m) cs)"
  using assms
proof (induction cs arbitrary: res u f k)
  case Nil
  then show ?case by simp
next
  case (Cons c cs)
  from Cons.prems obtain res1 u1 f1 k1 where
    step: "process_campaign env m (res, u, f, k) c = Inr (res1, u1, f1, k1)"
    by (cases "process_campaign env m (res, u, f, k) c") (simp, metis prod_cases4)
  with Cons.prems have "process_campaigns env m (res1, u1, f1, k1) cs = Inr (res', u', f', k')"
    by simp
  from Cons.IH [OF this] process_campaign_failed [OF step] show ?case by simp
qed

lemma run_report:
  assumes "add_leads_to_campaigns_segmented env = Report report"
  obtains campaigns_data m res u f k where
    "campaigns_file env = Parsed campaigns_data" "segments_file env = Parsed m"
    "process_campaigns env m ([], 0, 0, 0) (successful_campaigns campaigns_data) = Inr (res, u, f, k)"
    "report = \<lparr>status = (if f = 0 \<and> k = 0 then ''success'' else ''partial''), results = res,
               summary = \<lparr>campaigns_processed = length (successful_campaigns campaigns_data),
                          total_uploaded = u, total_failed = f, campaigns_skipped = k\<rparr>\<rparr>"
proof -
  from assms obtain campaigns_data where cd: "campaigns_file env = Parsed campaigns_data"
    by (cases "campaigns_file env")
       (simp_all add: add_leads_to_campaigns_segmented_def split: if_splits)
  from assms cd obtain m where m: "segments_file env = Parsed m"
    by (cases "segments_file env")
       (simp_all add: add_leads_to_campaigns_segmented_def Let_def split: if_splits)
  from assms cd m obtain res u f k where
    run: "process_campaigns env m ([], 0, 0, 0) (successful_campaigns campaigns_data) = Inr (res, u, f, k)"
    unfolding add_leads_to_campaigns_segmented_def Let_def successful_campaigns_def [symmetric]
    by (cases "process_campaigns env m ([], 0, 0, 0) (successful_campaigns campaigns_data)")
       (auto split: if_splits)
  from assms cd m run have
    "report = \<lparr>status = (if f = 0 \<and> k = 0 then ''success'' else ''partial''), results = res,
               summary = \<lparr>campaigns_processed = length (successful_campaigns campaigns_data),
                          total_uploaded = u, total_failed = f, campaigns_skipped = k\<rparr>\<rparr>"
    unfolding add_leads_to_campaigns_segmented_def Let_def successful_campaigns_def [symmetric]
    by (auto split: if_splits)
  with cd m run show thesis by (rule that)
qed

lemma process_campaign_results:
  assumes "process_campaign env m (res, u, f, k) c = Inr (res', u', f', k')"
  shows "res' = res @ [last res'] \<and> k' = k + (if status (last res') = ''skipped'' then 1 else 0)"
proof -
  let ?cname = "case map_of c ''campaign_name'' of None \<Rightarrow> ''Unknown'' | Some n \<Rightarrow> n"
  let ?seg = "extract_segment_from_campaign_name ?cname m"
  show ?thesis
  proof (cases "?seg = None \<or> ?seg = Some []")
    case True
    with assms show ?thesis by (auto simp add: process_campaign_def Let_def)
  next
    case False
    then obtain sid where sid: "?seg = Some sid" "sid \<noteq> []" by auto
    show ?thesis
    proof (cases "segment_files env (segment_file sid)")
      case File_not_found
      with assms sid show ?thesis by (auto simp add: process_campaign_def Let_def)
    next
      case Invalid_json
      with assms sid show ?thesis by (auto simp add: process_campaign_def Let_def)
    next
      case (Parsed leads)
      show ?thesis
      proof (cases "leads = []")
        case True
        with assms sid Parsed show ?thesis by (auto simp add: process_campaign_def Let_def)
      next
        case False
        with assms sid Parsed obtain r where
          r: "add_leads_to_campaign (post env) leads (map_of c ''campaign_id'') ?cname 100 = Inr r"
          by (cases "add_leads_to_campaign (post env) leads (map_of c ''campaign_id'') ?cname 100")
             (simp_all add: process_campaign_def Let_def)
        with False assms sid Parsed show ?thesis
          using add_leads_to_campaign_not_skipped [OF r]
          by (auto simp add: process_campaign_def Let_def)
      qed
    qed
  qed
qed

lemma process_campaigns_results:
  assumes "process_campaigns env m (res, u, f, k) cs = Inr (res', u', f', k')"
    and "k = length (filter (\<lambda>r. status r = ''skipped'') res)"
  shows "length res' = length res + length cs \<and>
         k' = length (filter (\<lambda>r. status r = ''skipped'') res')"
  using assms
proof (induction cs arbitrary: res u f k)
  case Nil
  then show ?case by auto
next
  case (Cons c cs)
  from Cons.prems(1) obtain res1 u1 f1 k1 where
    step: "process_campaign env m (res, u, f, k) c = Inr (res1, u1, f1, k1)"
    by (cases "process_campaign env m (res, u, f, k) c") (simp, metis prod_cases4)
  with Cons.prems have rest: "process_campaigns env m (res1, u1, f1, k1) cs = Inr (res', u', f', k')"
    by simp
  from process_campaign_results [OF step] obtain r where
    r: "res1 = res @ [r]" "k1 = k + (if status r = ''skipped'' then 1 else 0)" by metis
  with Cons.prems(2) have "k1 = length (filter (\<lambda>r. status r = ''skipped'') res1)" by simp
  from Cons.IH [OF rest this] r(1) show ?case by simp
qed

text \<open>The example runs, evaluated.\<close>

lemmas run_defs = add_leads_to_campaigns_segmented_def process_campaign_def
  extract_segment_from_campaign_name_def add_leads_to_campaign_def segment_file_def
  is_valid_email_def py_or_def make_batches_def range_from_0_def enumerate_from_def
  upload_single_batch_def requests_post_def add_batch_result_def int_of_json_def Let_def

lemma example_no_valid_email_report:
  "add_leads_to_campaigns_segmented example_no_valid_email =
     Report \<lparr>status = ''success'',
          results =
            [\<lparr>status = ''error'', campaign_id = Some ''c1'',
              campaign_name = ''Product A - Executive Leadership'', reason = None,
              message = Some ''No leads with valid email addresses'', counts = None\<rparr>],
          summary = \<lparr>campaigns_processed = 1, total_uploaded = 0, total_failed = 0,
                     campaigns_skipped = 0\<rparr>\<rparr>"
  by (simp add: example_no_valid_email_def example_manifest_def run_defs)

lemma example_three_destinations_report:
  "add_leads_to_campaigns_segmented example_three_destinations =
     Report \<lparr>status = ''partial'',
          results =
            [\<lparr>status = ''skipped'', campaign_id = Some ''c1'',
              campaign_name = ''Product A - Unknown Segment'',
              reason = Some ''Could not identify segment from campaign name'',
              message = None, counts = None\<rparr>,
             \<lparr>status = ''error'', campaign_id = Some ''c2'',
              campaign_name = ''Product A - Marketing Leadership'',
              reason = Some ''Segment file not found: segment_marketing_leads.json'',
              message = None, counts = None\<rparr>,
             \<lparr>status = ''success'', campaign_id = Some ''c3'',
              campaign_name = ''Product A - Executive Leadership - HVAC'', reason = None,
              message = None,
              counts = Some \<lparr>uploaded = 150, failed = 0, total_leads = 150, valid_leads = 150\<rparr>\<rparr>],
          summary = \<lparr>campaigns_processed = 3, total_uploaded = 150, total_failed = 1,
                     campaigns_skipped = 1\<rparr>\<rparr>"
  by (simp add: example_three_destinations_def example_manifest_def run_defs upt_rec)

lemma example_mixed_failures_report:
  "add_leads_to_campaigns_segmented example_mixed_failures =
     Report \<lparr>status = ''partial'',
          results =
            [\<lparr>status = ''error'', campaign_id = Some ''c1'',
              campaign_name = ''Product A - Marketing Leadership'',
              reason = Some ''Segment file not found: segment_marketing_leads.json'',
              message = None, counts = None\<rparr>,
             \<lparr>status = ''partial'', campaign_id = Some ''c2'',
              campaign_name = ''Product A - Executive Leadership'', reason = None,
              message = None,
              counts = Some \<lparr>uploaded = 0, failed = 2, total_leads = 2, valid_leads = 2\<rparr>\<rparr>,
             \<lparr>status = ''error'', campaign_id = Some ''c3'',
              campaign_name = ''Product A - Sales Leadership'', reason = None,
              message = Some ''No leads with valid email addresses'', counts = None\<rparr>],
          summary = \<lparr>campaigns_processed = 3, total_uploaded = 0, total_failed = 3,
                     campaigns_skipped = 0\<rparr>\<rparr>"
  by (simp add: example_mixed_failures_def example_manifest_def run_defs upt_rec)

text \<open>
  Claim C10. In the report of every run, \<^verbatim>\<open>total_failed\<close> is the sum over the
  destinations of: the failed lead counts of the batches of a delivered destination, 1 for
  a destination whose partition file is missing or is not valid JSON, and 0 for a
  destination without a lead with a valid email (and for a skipped one). The counter thus
  adds numbers of leads and numbers of destinations.
\<close>

theorem total_failed_counts_leads_and_destinations:
  assumes "campaigns_file env = Parsed campaigns_data"
    and "segments_file env = Parsed segment_mapping"
    and "add_leads_to_campaigns_segmented env = Report report"
  shows "total_failed (summary report) =
           sum_list (map (failed_of_campaign env segment_mapping) (successful_campaigns campaigns_data))"
proof -
  from assms(3) obtain cd m res u f k where
    r: "campaigns_file env = Parsed cd" "segments_file env = Parsed m"
      "process_campaigns env m ([], 0, 0, 0) (successful_campaigns cd) = Inr (res, u, f, k)"
      "report = \<lparr>status = (if f = 0 \<and> k = 0 then ''success'' else ''partial''), results = res,
               summary = \<lparr>campaigns_processed = length (successful_campaigns cd),
                          total_uploaded = u, total_failed = f, campaigns_skipped = k\<rparr>\<rparr>"
    by (rule run_report)
  from r(1,2) assms(1,2) have eq: "cd = campaigns_data" "m = segment_mapping" by simp_all
  from process_campaigns_failed [OF r(3)] r(4) eq show ?thesis by simp
qed

theorem total_failed_counts_leads_and_destinations_witness:
  "\<exists>report. add_leads_to_campaigns_segmented example_mixed_failures = Report report \<and>
     total_failed (summary report) =
       sum_list (map (failed_of_campaign example_mixed_failures (Some example_manifest))
         (successful_campaigns (Some
            [[(''campaign_id'', ''c1''), (''campaign_name'', ''Product A - Marketing Leadership''),
              (''status'', ''success'')],
             [(''campaign_id'', ''c2''), (''campaign_name'', ''Product A - Executive Leadership''),
              (''status'', ''success'')],
             [(''campaign_id'', ''c3''), (''campaign_name'', ''Product A - Sales Leadership''),
              (''status'', ''success'')]]))) \<and>
     total_failed (summary report) = 3"
proof -
  obtain report where r: "add_leads_to_campaigns_segmented example_mixed_failures = Report report"
    using example_mixed_failures_report by blast
  have c: "campaigns_file example_mixed_failures = Parsed (Some
            [[(''campaign_id'', ''c1''), (''campaign_name'', ''Product A - Marketing Leadership''),
              (''status'', ''success'')],
             [(''campaign_id'', ''c2''), (''campaign_name'', ''Product A - Executive Leadership''),
              (''status'', ''success'')],
             [(''campaign_id'', ''c3''), (''campaign_name'', ''Product A - Sales Leadership''),
              (''status'', ''success'')]])"
    by (simp add: example_mixed_failures_def)
  have m: "segments_file example_mixed_failures = Parsed (Some example_manifest)"
    by (simp add: example_mixed_failures_def)
  from r example_mixed_failures_report have t: "total_failed (summary report) = 3" by auto
  from total_failed_counts_leads_and_destinations [OF c m r] r t show ?thesis by blast
qed

text \<open>
  Claim C2, as amended. In a run whose report has three results, one skipped, one error
  and one success, \<^verbatim>\<open>campaigns_processed\<close> is 3: it is the number of destinations of
  the run, one per result, the skipped one included; \<^verbatim>\<open>campaigns_skipped\<close> is 1.
\<close>

theorem campaigns_processed_counts_skipped_too:
  assumes "add_leads_to_campaigns_segmented env = Report report"
    and "mset (map status (results report)) = {#''skipped'', ''error'', ''success''#}"
  shows "campaigns_processed (summary report) = 3 \<and> campaigns_skipped (summary report) = 1 \<and>
         campaigns_processed (summary report) = length (results report)"
proof -
  from assms(1) obtain cd m res u f k where
    r: "process_campaigns env m ([], 0, 0, 0) (successful_campaigns cd) = Inr (res, u, f, k)"
      "report = \<lparr>status = (if f = 0 \<and> k = 0 then ''success'' else ''partial''), results = res,
               summary = \<lparr>campaigns_processed = length (successful_campaigns cd),
                          total_uploaded = u, total_failed = f, campaigns_skipped = k\<rparr>\<rparr>"
    by (rule run_report)
  from process_campaigns_results [OF r(1)] have
    len: "length res = length (successful_campaigns cd)"
    and k: "k = length (filter (\<lambda>r. status r = ''skipped'') res)" by simp_all
  from assms(2) r(2) have ms: "mset (map status res) = {#''skipped'', ''error'', ''success''#}" by simp
  then have "size (mset (map status res)) = 3" by simp
  then have l3: "length res = 3" by simp
  have "length (filter (\<lambda>r. status r = ''skipped'') res) = count (mset (map status res)) ''skipped''"
    by (induction res) auto
  with ms have "length (filter (\<lambda>r. status r = ''skipped'') res) = 1" by simp
  with k l3 len r(2) show ?thesis by simp
qed

theorem campaigns_processed_counts_skipped_too_witness:
  "\<exists>report. add_leads_to_campaigns_segmented example_three_destinations = Report report \<and>
     mset (map status (results report)) = {#''skipped'', ''error'', ''success''#} \<and>
     campaigns_processed (summary report) = 3 \<and> campaigns_skipped (summary report) = 1"
proof -
  obtain report where r: "add_leads_to_campaigns_segmented example_three_destinations = Report report"
    using example_three_destinations_report by blast
  with example_three_destinations_report
  have ms: "mset (map status (results report)) = {#''skipped'', ''error'', ''success''#}" by auto
  from campaigns_processed_counts_skipped_too [OF r ms] r ms show ?thesis by blast
qed

text \<open>
  The claim as stated gives \<^verbatim>\<open>campaigns_processed\<close> = 2. In the run over three
  destinations (no segment, missing partition, two batches uploaded) the report says 3.
\<close>

theorem campaigns_processed_counterexample:
  "\<exists>report. add_leads_to_campaigns_segmented example_three_destinations = Report report \<and>
     map status (results report) = [''skipped'', ''error'', ''success''] \<and>
     campaigns_processed (summary report) = 3 \<and>
     campaigns_processed (summary report) \<noteq> 2 \<and>
     campaigns_skipped (summary report) = 1"
  by (simp add: example_three_destinations_report)

text \<open>
  Claim C1 asks for a non-zero exit code whenever a destination is not recorded with
  status success. The run over one destination whose partition has no lead with a valid
  email records status error for it, adds nothing to \<^verbatim>\<open>total_failed\<close>, reports
  status success and exits with code 0.
\<close>

theorem exit_code_zero_with_error_destination:
  "main example_no_valid_email = 0 \<and>
   (\<exists>report. add_leads_to_campaigns_segmented example_no_valid_email = Report report \<and>
      map status (results report) = [''error''] \<and>
      map message (results report) = [Some ''No leads with valid email addresses''])"
  by (simp add: main_def example_no_valid_email_report)

section \<open>Title Classifier: the fallback covers every title once\<close>

lemma title_bucket_cases:
  "title_bucket py t = ''exec'' \<or> title_bucket py t = ''operations'' \<or> title_bucket py t = ''marketing'' \<or>
   title_bucket py t = ''sales'' \<or> title_bucket py t = ''technical'' \<or> title_bucket py t = ''general''"
  unfolding title_bucket_def Let_def by presburger

lemma bucket_title_step:
  "bucket_title py b t =
     \<lparr>exec_titles = exec_titles b @ (if title_bucket py t = ''exec'' then [t] else []),
      operations_titles = operations_titles b @ (if title_bucket py t = ''operations'' then [t] else []),
      marketing_titles = marketing_titles b @ (if title_bucket py t = ''marketing'' then [t] else []),
      sales_titles = sales_titles b @ (if title_bucket py t = ''sales'' then [t] else []),
      technical_titles = technical_titles b @ (if title_bucket py t = ''technical'' then [t] else []),
      general_titles = general_titles b @ (if title_bucket py t = ''general'' then [t] else [])\<rparr>"
  unfolding bucket_title_def title_bucket_def Let_def
  by (cases b) simp

lemma bucket_title_fields:
  "exec_titles (bucket_title py b t) = exec_titles b @ (if title_bucket py t = ''exec'' then [t] else [])"
  "operations_titles (bucket_title py b t) =
     operations_titles b @ (if title_bucket py t = ''operations'' then [t] else [])"
  "marketing_titles (bucket_title py b t) =
     marketing_titles b @ (if title_bucket py t = ''marketing'' then [t] else [])"
  "sales_titles (bucket_title py b t) = sales_titles b @ (if title_bucket py t = ''sales'' then [t] else [])"
  "technical_titles (bucket_title py b t) =
     technical_titles b @ (if title_bucket py t = ''technical'' then [t] else [])"
  "general_titles (bucket_title py b t) =
     general_titles b @ (if title_bucket py t = ''general'' then [t] else [])"
  by (simp_all only: bucket_title_step buckets.simps)

lemma foldl_bucket_title:
  "exec_titles (foldl (bucket_title py) b ts) = exec_titles b @ filter (\<lambda>t. title_bucket py t = ''exec'') ts"
  "operations_titles (foldl (bucket_title py) b ts) =
     operations_titles b @ filter (\<lambda>t. title_bucket py t = ''operations'') ts"
  "marketing_titles (foldl (bucket_title py) b ts) =
     marketing_titles b @ filter (\<lambda>t. title_bucket py t = ''marketing'') ts"
  "sales_titles (foldl (bucket_title py) b ts) = sales_titles b @ filter (\<lambda>t. title_bucket py t = ''sales'') ts"
  "technical_titles (foldl (bucket_title py) b ts) =
     technical_titles b @ filter (\<lambda>t. title_bucket py t = ''technical'') ts"
  "general_titles (foldl (bucket_title py) b ts) =
     general_titles b @ filter (\<lambda>t. title_bucket py t = ''general'') ts"
  by (induction ts arbitrary: b) (simp_all add: bucket_title_fields)

lemma mset_title_buckets:
  "mset (filter (\<lambda>t. title_bucket py t = ''exec'') ts) +
   mset (filter (\<lambda>t. title_bucket py t = ''operations'') ts) +
   mset (filter (\<lambda>t. title_bucket py t = ''marketing'') ts) +
   mset (filter (\<lambda>t. title_bucket py t = ''sales'') ts) +
   mset (filter (\<lambda>t. title_bucket py t = ''technical'') ts) +
   mset (filter (\<lambda>t. title_bucket py t = ''general'') ts) = mset ts"
proof (induction ts)
  case Nil
  show ?case by simp
next
  case (Cons t ts)
  from title_bucket_cases [of py t] Cons.IH show ?case
    by (elim disjE) simp_all
qed

text \<open>The fallback manifest in terms of the buckets.\<close>

lemma fallback_segmentation_unfold:
  "fallback_segmentation py titles =
     (let E = filter (\<lambda>t. title_bucket py t = ''exec'') titles;
          G = filter (\<lambda>t. title_bucket py t = ''general'') titles;
          segs =
            (if E \<noteq> []
             then [\<lparr>segment_id = ''exec'', segment_name = ''Executive Leadership'',
                    job_titles = E,
                    messaging_angle = ''Revenue growth and strategic outcomes''\<rparr>] else []) @
            (if filter (\<lambda>t. title_bucket py t = ''operations'') titles \<noteq> []
             then [\<lparr>segment_id = ''operations'', segment_name = ''Operations Leadership'',
                    job_titles = filter (\<lambda>t. title_bucket py t = ''operations'') titles,
                    messaging_angle = ''Operational efficiency with revenue impact''\<rparr>] else []) @
            (if filter (\<lambda>t. title_bucket py t = ''marketing'') titles \<noteq> []
             then [\<lparr>segment_id = ''marketing'', segment_name = ''Marketing Leadership'',
                    job_titles = filter (\<lambda>t. title_bucket py t = ''marketing'') titles,
                    messaging_angle = ''Lead generation ROI and brand growth''\<rparr>] else []) @
            (if filter (\<lambda>t. title_bucket py t = ''sales'') titles \<noteq> []
             then [\<lparr>segment_id = ''sales'', segment_name = ''Sales Leadership'',
                    job_titles = filter (\<lambda>t. title_bucket py t = ''sales'') titles,
                    messaging_angle = ''Pipeline acceleration and quota attainment''\<rparr>] else []) @
            (if filter (\<lambda>t. title_bucket py t = ''technical'') titles \<noteq> []
             then [\<lparr>segment_id = ''technical'', segment_name = ''Technical Leadership'',
                    job_titles = filter (\<lambda>t. title_bucket py t = ''technical'') titles,
                    messaging_angle = ''Innovation and technical excellence''\<rparr>] else [])
      in if G \<noteq> []
         then if length G < 10 \<and> E \<noteq> []
              then (case segs of
                      [] \<Rightarrow> []
                    | seg # rest \<Rightarrow> seg\<lparr>job_titles := job_titles seg @ G\<rparr> # rest)
              else segs @ [\<lparr>segment_id = ''general'', segment_name = ''General Management'',
                             job_titles = G,
                             messaging_angle = ''Business growth and operational excellence''\<rparr>]
         else segs)"
  unfolding fallback_segmentation_def Let_def foldl_bucket_title
  by (simp add: empty_buckets_def)


lemma covered_exactly_once:
  fixes segs :: "segment_def list"
  assumes d: "distinct (map segment_id segs)"
    and f: "\<forall>seg \<in> set segs. \<forall>t \<in> set (job_titles seg). segment_id seg = f t"
    and m: "mset (concat (map job_titles segs)) = mset titles"
  shows "\<forall>t \<in> set titles. \<exists>!i. i < length segs \<and> t \<in> set (job_titles (segs ! i))"
proof
  fix t assume "t \<in> set titles"
  then have "t \<in># mset (concat (map job_titles segs))" using m by simp
  then have "t \<in> set (concat (map job_titles segs))" by simp
  then obtain seg where seg: "seg \<in> set segs" "t \<in> set (job_titles seg)" by auto
  then obtain i where i: "i < length segs" "segs ! i = seg" by (auto simp add: in_set_conv_nth)
  show "\<exists>!i. i < length segs \<and> t \<in> set (job_titles (segs ! i))"
  proof (rule ex1I [of _ i])
    show "i < length segs \<and> t \<in> set (job_titles (segs ! i))" using i seg by simp
  next
    fix j assume j: "j < length segs \<and> t \<in> set (job_titles (segs ! j))"
    then have "segs ! j \<in> set segs" by simp
    with f j have "segment_id (segs ! j) = f t" by blast
    moreover from f seg i have "segment_id (segs ! i) = f t" by blast
    ultimately have e: "map segment_id segs ! j = map segment_id segs ! i" using i j by simp
    from i j have "j < length (map segment_id segs)" "i < length (map segment_id segs)" by simp_all
    with d e show "j = i" by (simp only: nth_eq_iff_index_eq)
  qed
qed

text \<open>
  Claim C9. For every non-empty list of titles, the manifest of the keyword fallback has
  every input title in the \<^verbatim>\<open>job_titles\<close> of exactly one segment, and the titles of all
  segments together are the input titles, each as often as in the input. The segment of
  a title is the first of exec, operations, marketing, sales and technical whose keyword
  list matches the lowered title, and general otherwise; general titles are in the exec
  segment instead when there are fewer than 10 of them and an exec bucket exists.
\<close>

theorem fallback_covers_every_title_once:
  assumes "titles \<noteq> []"
  shows "(\<forall>t \<in> set titles. \<exists>!i. i < length (fallback_segmentation py titles) \<and>
            t \<in> set (job_titles (fallback_segmentation py titles ! i))) \<and>
         mset (concat (map job_titles (fallback_segmentation py titles))) = mset titles \<and>
         (\<forall>seg \<in> set (fallback_segmentation py titles). \<forall>t \<in> set (job_titles seg).
            segment_id seg = fallback_segment_of py titles t)"
proof -
  define Ex where "Ex = filter (\<lambda>t. title_bucket py t = ''exec'') titles"
  define Op where "Op = filter (\<lambda>t. title_bucket py t = ''operations'') titles"
  define Mk where "Mk = filter (\<lambda>t. title_bucket py t = ''marketing'') titles"
  define Sa where "Sa = filter (\<lambda>t. title_bucket py t = ''sales'') titles"
  define Te where "Te = filter (\<lambda>t. title_bucket py t = ''technical'') titles"
  define Ge where "Ge = filter (\<lambda>t. title_bucket py t = ''general'') titles"
  define rest where "rest =
      (if Op \<noteq> []
       then [\<lparr>segment_id = ''operations'', segment_name = ''Operations Leadership'',
              job_titles = Op,
              messaging_angle = ''Operational efficiency with revenue impact''\<rparr>] else []) @
      (if Mk \<noteq> []
       then [\<lparr>segment_id = ''marketing'', segment_name = ''Marketing Leadership'',
              job_titles = Mk,
              messaging_angle = ''Lead generation ROI and brand growth''\<rparr>] else []) @
      (if Sa \<noteq> []
       then [\<lparr>segment_id = ''sales'', segment_name = ''Sales Leadership'',
              job_titles = Sa,
              messaging_angle = ''Pipeline acceleration and quota attainment''\<rparr>] else []) @
      (if Te \<noteq> []
       then [\<lparr>segment_id = ''technical'', segment_name = ''Technical Leadership'',
              job_titles = Te,
              messaging_angle = ''Innovation and technical excellence''\<rparr>] else [])"
  let ?exec = "\<lambda>ts. \<lparr>segment_id = ''exec'', segment_name = ''Executive Leadership'',
                      job_titles = ts,
                      messaging_angle = ''Revenue growth and strategic outcomes''\<rparr>"
  let ?general = "\<lparr>segment_id = ''general'', segment_name = ''General Management'',
                    job_titles = Ge,
                    messaging_angle = ''Business growth and operational excellence''\<rparr>"
  have parts: "mset Ex + mset Op + mset Mk + mset Sa + mset Te + mset Ge = mset titles"
    unfolding Ex_def Op_def Mk_def Sa_def Te_def Ge_def by (rule mset_title_buckets)
  have bucket: "\<forall>t \<in> set Ex. title_bucket py t = ''exec''" "\<forall>t \<in> set Op. title_bucket py t = ''operations''"
    "\<forall>t \<in> set Mk. title_bucket py t = ''marketing''" "\<forall>t \<in> set Sa. title_bucket py t = ''sales''"
    "\<forall>t \<in> set Te. title_bucket py t = ''technical''" "\<forall>t \<in> set Ge. title_bucket py t = ''general''"
    by (simp_all add: Ex_def Op_def Mk_def Sa_def Te_def Ge_def)
  have rest_ids: "set (map segment_id rest) \<subseteq> {''operations'', ''marketing'', ''sales'', ''technical''}"
    by (auto simp add: rest_def)
  have rest_distinct: "distinct (map segment_id rest)" by (simp add: rest_def)
  have rest_titles: "concat (map job_titles rest) = Op @ Mk @ Sa @ Te" by (simp add: rest_def)
  have rest_bucket: "\<forall>seg \<in> set rest. \<forall>t \<in> set (job_titles seg). segment_id seg = title_bucket py t"
    using bucket(2-5) by (auto simp add: rest_def)
  have merged: "general_is_merged py titles \<longleftrightarrow> length Ge < 10 \<and> Ex \<noteq> []"
    by (auto simp add: general_is_merged_def Ge_def Ex_def filter_empty_conv)
  have segs: "fallback_segmentation py titles =
      (if Ge \<noteq> []
       then if length Ge < 10 \<and> Ex \<noteq> [] then ?exec (Ex @ Ge) # rest
            else (if Ex \<noteq> [] then [?exec Ex] else []) @ rest @ [?general]
       else (if Ex \<noteq> [] then [?exec Ex] else []) @ rest)"
    unfolding fallback_segmentation_unfold Let_def Ex_def [symmetric] Op_def [symmetric]
      Mk_def [symmetric] Sa_def [symmetric] Te_def [symmetric] Ge_def [symmetric] rest_def [symmetric]
    by simp
  have not_in_rest: "''exec'' \<notin> set (map segment_id rest)" "''general'' \<notin> set (map segment_id rest)"
    using rest_ids by auto
  have d: "distinct (map segment_id (fallback_segmentation py titles))"
    using rest_distinct not_in_rest by (simp add: segs)
  have m: "mset (concat (map job_titles (fallback_segmentation py titles))) = mset titles"
    using parts [symmetric] by (simp add: segs rest_titles)
  have f: "\<forall>seg \<in> set (fallback_segmentation py titles). \<forall>t \<in> set (job_titles seg).
             segment_id seg = fallback_segment_of py titles t"
  proof -
    have r: "\<forall>seg \<in> set rest. \<forall>t \<in> set (job_titles seg). segment_id seg = fallback_segment_of py titles t"
    proof (intro ballI)
      fix seg t assume a: "seg \<in> set rest" "t \<in> set (job_titles seg)"
      with rest_bucket have "segment_id seg = title_bucket py t" by blast
      moreover from a(1) rest_ids have "segment_id seg \<noteq> ''general''" by auto
      ultimately show "segment_id seg = fallback_segment_of py titles t"
        by (simp add: fallback_segment_of_def)
    qed
    have e: "\<forall>t \<in> set Ex. fallback_segment_of py titles t = ''exec''"
      using bucket(1) by (simp add: fallback_segment_of_def)
    show ?thesis
    proof (cases "Ge = []")
      case True
      with r e show ?thesis by (auto simp add: segs)
    next
      case False
      show ?thesis
      proof (cases "length Ge < 10 \<and> Ex \<noteq> []")
        case True
        then have "general_is_merged py titles" by (simp add: merged)
        with bucket(6) have "\<forall>t \<in> set Ge. fallback_segment_of py titles t = ''exec''"
          by (simp add: fallback_segment_of_def)
        with False True r e show ?thesis by (auto simp add: segs)
      next
        case nm: False
        then have "\<not> general_is_merged py titles" by (simp add: merged)
        with bucket(6) have "\<forall>t \<in> set Ge. fallback_segment_of py titles t = ''general''"
          by (simp add: fallback_segment_of_def)
        with False nm r e show ?thesis by (auto simp add: segs)
      qed
    qed
  qed
  from covered_exactly_once [OF d f m] m f show ?thesis by blast
qed


theorem fallback_covers_every_title_once_witness:
  "[''CEO'', ''COO'', ''Janitor''] \<noteq> [] \<and>
   map job_titles (fallback_segmentation ascii [''CEO'', ''COO'', ''Janitor'']) =
     [[''CEO'', ''Janitor''], [''COO'']] \<and>
   mset (concat (map job_titles (fallback_segmentation ascii [''CEO'', ''COO'', ''Janitor'']))) =
     mset [''CEO'', ''COO'', ''Janitor''] \<and>
   (\<exists>!i. i < length (fallback_segmentation ascii [''CEO'', ''COO'', ''Janitor'']) \<and>
      ''Janitor'' \<in> set (job_titles (fallback_segmentation ascii [''CEO'', ''COO'', ''Janitor''] ! i)))"
proof -
  let ?ts = "[''CEO'', ''COO'', ''Janitor'']"
  have ne: "?ts \<noteq> []" by simp
  have ev: "map job_titles (fallback_segmentation ascii ?ts) = [[''CEO'', ''Janitor''], [''COO'']]"
    by (simp add: fallback_segmentation_def bucket_title_def empty_buckets_def any_keyword_def
        ascii_def)
  note t = fallback_covers_every_title_once [OF ne, where py = ascii]
  from t have m: "mset (concat (map job_titles (fallback_segmentation ascii ?ts))) = mset ?ts"
    by blast
  from t have "\<forall>t \<in> set ?ts. \<exists>!i. i < length (fallback_segmentation ascii ?ts) \<and>
      t \<in> set (job_titles (fallback_segmentation ascii ?ts ! i))" by blast
  then have u: "\<exists>!i. i < length (fallback_segmentation ascii ?ts) \<and>
      ''Janitor'' \<in> set (job_titles (fallback_segmentation ascii ?ts ! i))" by simp
  from ne ev m u show ?thesis by blast
qed

section \<open>Segment Assigner: the minimum size and the merge into exec\<close>

lemma segment_file_inj: "segment_file a = segment_file b \<longleftrightarrow> a = b"
  by (simp add: segment_file_def)

lemma add_to_exec_None: "add_to_exec n fs = None \<longleftrightarrow> (\<forall>s \<in> set fs. segment_id s \<noteq> ''exec'')"
  by (induction fs) auto




























text \<open>The example runs, evaluated.\<close>

lemmas assigner_defs = segment_by_job_title_def segment_definitions_of_def add_unique_title_def
  lead_title_def py_or_def split_leads_def assign_lead_def build_title_to_segment_def
  ascii_def is_space_def filter_segment_def resave_exec_def segment_file_def
  example_assigner_def example_lead_def example_definitions_def Let_def



lemma fallback_two_ceo_one_coo_result:
  "segment_by_job_title ascii (example_assigner (\<lambda>titles. None) two_ceo_one_coo) 2 =
     Inr (\<lparr>segments =
             [\<lparr>segment_id = ''exec'', segment_name = ''Executive Leadership'', job_titles = [''CEO''],
               messaging_angle = ''Revenue growth and strategic outcomes'', lead_count = 3\<rparr>],
           total_leads = 3, total_segments = 1\<rparr>,
          [segment_file ''exec'' \<mapsto> two_ceo_one_coo])"
  by (simp add: assigner_defs two_ceo_one_coo_def fallback_segmentation_def bucket_title_def
      empty_buckets_def any_keyword_def)

lemma no_title_result:
  "segment_by_job_title ascii (example_assigner (\<lambda>titles. None) [[(''email'', ''ann@example.com'')]]) 10 =
     Inr (\<lparr>segments = [], total_leads = 1, total_segments = 0\<rparr>,
          [segment_file ''exec'' \<mapsto> [[(''email'', ''ann@example.com'')]]])"
  by (simp add: assigner_defs)



text \<open>
  With two definitions of the same id the partition of that id is merged twice, which is
  why the statement about the lead count below takes the segment ids to be distinct.
\<close>

lemma two_operations_result:
  "segment_by_job_title ascii
     (example_assigner (\<lambda>titles. Some example_two_operations) five_coo_leads) 10 =
     Inr (\<lparr>segments =
             [\<lparr>segment_id = ''exec'', segment_name = ''Executive Leadership'', job_titles = [''COO''],
               messaging_angle = ''Revenue growth and strategic outcomes'', lead_count = 10\<rparr>],
           total_leads = 5, total_segments = 1\<rparr>,
          [segment_file ''exec'' \<mapsto> five_coo_leads @ five_coo_leads])"
  by (simp add: assigner_defs five_coo_leads_def example_two_operations_def)






text \<open>
  Claim C3 asks that the job titles of the final manifest cover every title assigned to a
  lead, also when its segment was merged away. With two leads titled CEO, one titled COO,
  the fallback classifier and N = 2, the operations segment is merged into the exec entry
  that exists already: the COO lead is in the exec partition, and the title COO is in no
  segment of the manifest.
\<close>

theorem merged_titles_are_orphaned:
  "\<exists>m files.
     segment_by_job_title ascii (example_assigner (\<lambda>titles. None) two_ceo_one_coo) 2 = Inr (m, files) \<and>
     map job_titles (segments m) = [[''CEO'']] \<and>
     files (segment_file ''exec'') = Some two_ceo_one_coo \<and>
     lead_title (two_ceo_one_coo ! 2) = ''COO'' \<and>
     ''COO'' \<notin> set (concat (map job_titles (segments m)))"
proof -
  have "lead_title (two_ceo_one_coo ! 2) = ''COO''"
    by (simp add: two_ceo_one_coo_def example_lead_def lead_title_def py_or_def)
  then show ?thesis by (simp add: fallback_two_ceo_one_coo_result)
qed

text \<open>
  When no lead has a title and the minimum size is positive, every lead is unmatched and
  goes to the exec partition, the general segment has no lead and is filtered out, and
  the manifest has no segment.
\<close>

lemma no_titles_collected:
  assumes "\<forall>lead \<in> set leads. lead_title lead = []"
  shows "foldl add_unique_title ts leads = ts"
  using assms by (induction leads arbitrary: ts) (simp_all add: add_unique_title_def)

lemma all_unmatched:
  assumes "\<forall>lead \<in> set leads. lead_title lead = []"
  shows "foldl (assign_lead py Map.empty) (sl, un) leads = (sl, un @ leads)"
  using assms
  by (induction leads arbitrary: un) (simp_all add: assign_lead_def)

lemma no_titles_manifest_is_empty:
  assumes "anthropic_api_key env = Some key" and "key \<noteq> []"
    and "input_file env = Parsed leads" and "leads \<noteq> []"
    and "\<forall>lead \<in> set leads. lead_title lead = []"
    and "0 < N"
  shows "segment_by_job_title py env N =
           Inr (\<lparr>segments = [], total_leads = length leads, total_segments = 0\<rparr>,
                (output_dir env)(segment_file ''exec'' \<mapsto> leads))"
proof -
  have defs: "segment_definitions_of py env leads =
      [\<lparr>segment_id = ''general'', segment_name = ''General'', job_titles = [],
        messaging_angle = ''Business growth and operational excellence''\<rparr>]"
    using no_titles_collected [OF assms(5), of "[]"] by (simp add: segment_definitions_of_def)
  have sl: "split_leads py (segment_definitions_of py env leads) leads = (\<lambda>sid. [])(''exec'' := leads)"
    using all_unmatched [OF assms(5), of py "\<lambda>sid. []" "[]"] assms(4)
    by (simp add: defs split_leads_def build_title_to_segment_def)
  show ?thesis
    using assms(1,2,3,4,6)
    by (simp add: segment_by_job_title_def Let_def sl [unfolded defs] defs filter_segment_def
        resave_exec_def)
qed

text \<open>
  Claim C5 asks for a manifest with a single general segment when no lead has a title.
  For one lead without a title and N = 10 the manifest has no segment at all; the lead is
  written to the exec file.
\<close>

theorem no_titles_gives_empty_manifest:
  "\<exists>m files.
     segment_by_job_title ascii (example_assigner (\<lambda>titles. None) [[(''email'', ''ann@example.com'')]]) 10 =
       Inr (m, files) \<and>
     segments m = [] \<and> total_segments m = 0 \<and>
     files (segment_file ''exec'') = Some [[(''email'', ''ann@example.com'')]] \<and>
     files (segment_file ''general'') = None"
  by (simp add: no_title_result segment_file_inj)

end
